theory Spec2Isabelle
  imports Complex_Main "HOL-Library.Word"
begin

unbundle bit_operations_syntax

section \<open>The Object built-in of the engine (ecma-builtin-object-object.c)\<close>

text \<open>
  A shallow embedding of \<^verbatim>\<open>src/libecmabuiltins/ecma-builtin-object-object.c\<close>: the table of
  the Object object's property names, its initialisation, the dispatcher of its routines and
  the lazy instantiation of its properties. Every function of the file keeps its name. What
  the file uses and does not define (the enumerations' numbering, the property store, the
  table search) is either a parameter or a definition whose comment says that it is
  modelled from the specification.
\<close>

subsection \<open>Fatal outcomes\<close>

text \<open>
  Modelled from the spec: the macros \<^verbatim>\<open>JERRY_ASSERT\<close>, \<^verbatim>\<open>JERRY_UNREACHABLE\<close>,
  \<^verbatim>\<open>JERRY_UNIMPLEMENTED\<close> and \<^verbatim>\<open>JERRY_UNIMPLEMENTED_REF_UNUSED_VARS\<close> are not in the sources
  at hand. The engine has no exceptions. A violated invariant is a fatal condition: the
  engine aborts rather than recovers. An algorithm left unimplemented signals an explicit
  "not implemented" fatal marker, and a branch that cannot be reached is fatal when it is.
  Each of these outcomes is a value here, and every function that can reach one returns
  \<open>jerry_fatal + 'a\<close>. \<open>JERRY_INVALID_ACCESS\<close> stands for a read through a pointer or an index
  that is not valid, which C leaves undefined.
\<close>

datatype jerry_fatal =
    JERRY_ASSERT
  | JERRY_UNREACHABLE
  | JERRY_UNIMPLEMENTED
  | JERRY_INVALID_ACCESS

subsection \<open>Magic strings\<close>

text \<open>
  \<^verbatim>\<open>ecma_magic_string_id_t\<close> is an enumeration declared outside this file. The constructors
  are the members this file names, \<open>ECMA_MAGIC_STRING_TO_STRING_UL\<close> (\<^verbatim>\<open>"toString"\<close>, a member
  that is not a property of the Object object) and \<open>ECMA_MAGIC_STRING_OTHER k\<close> for every
  other member. The integer value of a member is not known here: it is the parameter
  \<open>magic_string_id_value\<close> of the record \<open>ecma_enum_values\<close> below.
\<close>

datatype ecma_magic_string_id_t =
    ECMA_MAGIC_STRING_PROTOTYPE
  | ECMA_MAGIC_STRING_LENGTH
  | ECMA_MAGIC_STRING_GET_PROTOTYPE_OF_UL
  | ECMA_MAGIC_STRING_GET_OWN_PROPERTY_DESCRIPTOR_UL
  | ECMA_MAGIC_STRING_GET_OWN_PROPERTY_NAMES_UL
  | ECMA_MAGIC_STRING_CREATE
  | ECMA_MAGIC_STRING_DEFINE_PROPERTY_UL
  | ECMA_MAGIC_STRING_DEFINE_PROPERTIES_UL
  | ECMA_MAGIC_STRING_SEAL
  | ECMA_MAGIC_STRING_FREEZE
  | ECMA_MAGIC_STRING_PREVENT_EXTENSIONS_UL
  | ECMA_MAGIC_STRING_IS_SEALED_UL
  | ECMA_MAGIC_STRING_IS_FROZEN_UL
  | ECMA_MAGIC_STRING_IS_EXTENSIBLE
  | ECMA_MAGIC_STRING_KEYS
  | ECMA_MAGIC_STRING_TO_STRING_UL
  | ECMA_MAGIC_STRING_OTHER nat

text \<open>A string is an interned magic string or a string of the heap.\<close>

datatype ecma_string_t =
    ECMA_STRING_MAGIC ecma_magic_string_id_t
  | ECMA_STRING_HEAP string

subsection \<open>Values and completion values\<close>

text \<open>
  Modelled from the spec: the declarations of the values and of the completion values are
  not in the sources at hand. A value is a simple value (Undefined, Null, a Boolean or
  Empty), a Number, a String or an Object; a completion value is a value with a kind
  (normal, throw, return, exit).
\<close>

type_synonym ecma_object_ptr = nat

type_synonym ecma_number_t = real

datatype ecma_simple_value_t =
    ECMA_SIMPLE_VALUE_EMPTY
  | ECMA_SIMPLE_VALUE_UNDEFINED
  | ECMA_SIMPLE_VALUE_NULL
  | ECMA_SIMPLE_VALUE_FALSE
  | ECMA_SIMPLE_VALUE_TRUE

text \<open>
  A Number value owns its boxed cell alone, so the value carries the content of the cell
  (\<^verbatim>\<open>ecma_alloc_number\<close> and the store through the pointer are the choice of that content).
  An Object value is a reference into the heap of objects.
\<close>

datatype ecma_value_t =
    ECMA_TYPE_SIMPLE ecma_simple_value_t
  | ECMA_TYPE_NUMBER ecma_number_t
  | ECMA_TYPE_STRING ecma_string_t
  | ECMA_TYPE_OBJECT ecma_object_ptr

datatype ecma_completion_type_t =
    ECMA_COMPLETION_TYPE_NORMAL
  | ECMA_COMPLETION_TYPE_THROW
  | ECMA_COMPLETION_TYPE_RETURN
  | ECMA_COMPLETION_TYPE_EXIT

record ecma_completion_value_t =
  completion_type :: ecma_completion_type_t
  completion_value :: ecma_value_t

definition ecma_make_simple_value :: "ecma_simple_value_t \<Rightarrow> ecma_value_t" where
  "ecma_make_simple_value v = ECMA_TYPE_SIMPLE v"

definition ecma_make_number_value :: "ecma_number_t \<Rightarrow> ecma_value_t" where
  "ecma_make_number_value num_p = ECMA_TYPE_NUMBER num_p"

text \<open>Modelled from the spec: the constant \<^verbatim>\<open>ECMA_NUMBER_ONE\<close>, the Number valued 1.\<close>

definition ECMA_NUMBER_ONE :: ecma_number_t where
  "ECMA_NUMBER_ONE = 1"

subsection \<open>The table of property names (lines 45 to 69)\<close>

definition ecma_builtin_object_property_names :: "ecma_magic_string_id_t list" where
  "ecma_builtin_object_property_names =
    [ ECMA_MAGIC_STRING_PROTOTYPE,
      ECMA_MAGIC_STRING_LENGTH,
      ECMA_MAGIC_STRING_GET_PROTOTYPE_OF_UL,
      ECMA_MAGIC_STRING_GET_OWN_PROPERTY_DESCRIPTOR_UL,
      ECMA_MAGIC_STRING_GET_OWN_PROPERTY_NAMES_UL,
      ECMA_MAGIC_STRING_CREATE,
      ECMA_MAGIC_STRING_DEFINE_PROPERTY_UL,
      ECMA_MAGIC_STRING_DEFINE_PROPERTIES_UL,
      ECMA_MAGIC_STRING_SEAL,
      ECMA_MAGIC_STRING_FREEZE,
      ECMA_MAGIC_STRING_PREVENT_EXTENSIONS_UL,
      ECMA_MAGIC_STRING_IS_SEALED_UL,
      ECMA_MAGIC_STRING_IS_FROZEN_UL,
      ECMA_MAGIC_STRING_IS_EXTENSIBLE,
      ECMA_MAGIC_STRING_KEYS ]"

definition ecma_builtin_object_property_number :: nat where
  "ecma_builtin_object_property_number = length ecma_builtin_object_property_names"

subsection \<open>The routines (lines 158 to 394)\<close>

text \<open>
  The identifiers of the routines: the case labels of the dispatcher, in its order. The same
  thirteen labels are the cases of \<open>ecma_builtin_object_get_routine_parameters_number\<close> and
  the routine cases of the lazy instantiation.
\<close>

definition ecma_builtin_object_routine_ids :: "ecma_magic_string_id_t list" where
  "ecma_builtin_object_routine_ids =
    [ ECMA_MAGIC_STRING_GET_PROTOTYPE_OF_UL,
      ECMA_MAGIC_STRING_GET_OWN_PROPERTY_NAMES_UL,
      ECMA_MAGIC_STRING_SEAL,
      ECMA_MAGIC_STRING_FREEZE,
      ECMA_MAGIC_STRING_PREVENT_EXTENSIONS_UL,
      ECMA_MAGIC_STRING_IS_SEALED_UL,
      ECMA_MAGIC_STRING_IS_FROZEN_UL,
      ECMA_MAGIC_STRING_IS_EXTENSIBLE,
      ECMA_MAGIC_STRING_KEYS,
      ECMA_MAGIC_STRING_GET_OWN_PROPERTY_DESCRIPTOR_UL,
      ECMA_MAGIC_STRING_CREATE,
      ECMA_MAGIC_STRING_DEFINE_PROPERTIES_UL,
      ECMA_MAGIC_STRING_DEFINE_PROPERTY_UL ]"

fun ecma_builtin_object_get_routine_parameters_number ::
  "ecma_magic_string_id_t \<Rightarrow> jerry_fatal + nat" where
  "ecma_builtin_object_get_routine_parameters_number ECMA_MAGIC_STRING_GET_PROTOTYPE_OF_UL = Inr 1"
| "ecma_builtin_object_get_routine_parameters_number ECMA_MAGIC_STRING_GET_OWN_PROPERTY_NAMES_UL = Inr 1"
| "ecma_builtin_object_get_routine_parameters_number ECMA_MAGIC_STRING_SEAL = Inr 1"
| "ecma_builtin_object_get_routine_parameters_number ECMA_MAGIC_STRING_FREEZE = Inr 1"
| "ecma_builtin_object_get_routine_parameters_number ECMA_MAGIC_STRING_PREVENT_EXTENSIONS_UL = Inr 1"
| "ecma_builtin_object_get_routine_parameters_number ECMA_MAGIC_STRING_IS_SEALED_UL = Inr 1"
| "ecma_builtin_object_get_routine_parameters_number ECMA_MAGIC_STRING_IS_FROZEN_UL = Inr 1"
| "ecma_builtin_object_get_routine_parameters_number ECMA_MAGIC_STRING_IS_EXTENSIBLE = Inr 1"
| "ecma_builtin_object_get_routine_parameters_number ECMA_MAGIC_STRING_KEYS = Inr 1"
| "ecma_builtin_object_get_routine_parameters_number ECMA_MAGIC_STRING_GET_OWN_PROPERTY_DESCRIPTOR_UL = Inr 2"
| "ecma_builtin_object_get_routine_parameters_number ECMA_MAGIC_STRING_CREATE = Inr 2"
| "ecma_builtin_object_get_routine_parameters_number ECMA_MAGIC_STRING_DEFINE_PROPERTIES_UL = Inr 2"
| "ecma_builtin_object_get_routine_parameters_number ECMA_MAGIC_STRING_DEFINE_PROPERTY_UL = Inr 3"
| "ecma_builtin_object_get_routine_parameters_number _ = Inl JERRY_UNREACHABLE"

text \<open>
  The thirteen handlers. The body of each is \<^verbatim>\<open>JERRY_UNIMPLEMENTED_REF_UNUSED_VARS\<close> of its
  arguments: the "not implemented" fatal marker, whatever the arguments.
\<close>

definition ecma_builtin_object_object_get_prototype_of ::
  "ecma_value_t \<Rightarrow> jerry_fatal + ecma_completion_value_t" where
  "ecma_builtin_object_object_get_prototype_of arg = Inl JERRY_UNIMPLEMENTED"

definition ecma_builtin_object_object_get_own_property_names ::
  "ecma_value_t \<Rightarrow> jerry_fatal + ecma_completion_value_t" where
  "ecma_builtin_object_object_get_own_property_names arg = Inl JERRY_UNIMPLEMENTED"

definition ecma_builtin_object_object_seal ::
  "ecma_value_t \<Rightarrow> jerry_fatal + ecma_completion_value_t" where
  "ecma_builtin_object_object_seal arg = Inl JERRY_UNIMPLEMENTED"

definition ecma_builtin_object_object_freeze ::
  "ecma_value_t \<Rightarrow> jerry_fatal + ecma_completion_value_t" where
  "ecma_builtin_object_object_freeze arg = Inl JERRY_UNIMPLEMENTED"

definition ecma_builtin_object_object_prevent_extensions ::
  "ecma_value_t \<Rightarrow> jerry_fatal + ecma_completion_value_t" where
  "ecma_builtin_object_object_prevent_extensions arg = Inl JERRY_UNIMPLEMENTED"

definition ecma_builtin_object_object_is_sealed ::
  "ecma_value_t \<Rightarrow> jerry_fatal + ecma_completion_value_t" where
  "ecma_builtin_object_object_is_sealed arg = Inl JERRY_UNIMPLEMENTED"

definition ecma_builtin_object_object_is_frozen ::
  "ecma_value_t \<Rightarrow> jerry_fatal + ecma_completion_value_t" where
  "ecma_builtin_object_object_is_frozen arg = Inl JERRY_UNIMPLEMENTED"

definition ecma_builtin_object_object_is_extensible ::
  "ecma_value_t \<Rightarrow> jerry_fatal + ecma_completion_value_t" where
  "ecma_builtin_object_object_is_extensible arg = Inl JERRY_UNIMPLEMENTED"

definition ecma_builtin_object_object_keys ::
  "ecma_value_t \<Rightarrow> jerry_fatal + ecma_completion_value_t" where
  "ecma_builtin_object_object_keys arg = Inl JERRY_UNIMPLEMENTED"

definition ecma_builtin_object_object_get_own_property_descriptor ::
  "ecma_value_t \<Rightarrow> ecma_value_t \<Rightarrow> jerry_fatal + ecma_completion_value_t" where
  "ecma_builtin_object_object_get_own_property_descriptor arg1 arg2 = Inl JERRY_UNIMPLEMENTED"

definition ecma_builtin_object_object_create ::
  "ecma_value_t \<Rightarrow> ecma_value_t \<Rightarrow> jerry_fatal + ecma_completion_value_t" where
  "ecma_builtin_object_object_create arg1 arg2 = Inl JERRY_UNIMPLEMENTED"

definition ecma_builtin_object_object_define_properties ::
  "ecma_value_t \<Rightarrow> ecma_value_t \<Rightarrow> jerry_fatal + ecma_completion_value_t" where
  "ecma_builtin_object_object_define_properties arg1 arg2 = Inl JERRY_UNIMPLEMENTED"

definition ecma_builtin_object_object_define_property ::
  "ecma_value_t \<Rightarrow> ecma_value_t \<Rightarrow> ecma_value_t \<Rightarrow> jerry_fatal + ecma_completion_value_t" where
  "ecma_builtin_object_object_define_property arg1 arg2 arg3 = Inl JERRY_UNIMPLEMENTED"

subsection \<open>The dispatcher (lines 402 to 513)\<close>

text \<open>
  A handler never returns, so which handler the dispatcher calls, and with which arguments,
  cannot be read from the dispatcher's result. The model therefore has the call as a value:
  \<open>ecma_builtin_object_dispatch_routine_call\<close> is the \<^verbatim>\<open>switch\<close> up to the call it
  makes, \<open>ecma_builtin_object_routine_invoke\<close> makes the call, and the dispatcher is the
  one after the other.
\<close>

datatype ecma_builtin_object_routine_call =
    CALL_get_prototype_of ecma_value_t
  | CALL_get_own_property_names ecma_value_t
  | CALL_seal ecma_value_t
  | CALL_freeze ecma_value_t
  | CALL_prevent_extensions ecma_value_t
  | CALL_is_sealed ecma_value_t
  | CALL_is_frozen ecma_value_t
  | CALL_is_extensible ecma_value_t
  | CALL_keys ecma_value_t
  | CALL_get_own_property_descriptor ecma_value_t ecma_value_t
  | CALL_create ecma_value_t ecma_value_t
  | CALL_define_properties ecma_value_t ecma_value_t
  | CALL_define_property ecma_value_t ecma_value_t ecma_value_t

fun ecma_builtin_object_routine_invoke ::
  "ecma_builtin_object_routine_call \<Rightarrow> jerry_fatal + ecma_completion_value_t" where
  "ecma_builtin_object_routine_invoke (CALL_get_prototype_of arg) =
     ecma_builtin_object_object_get_prototype_of arg"
| "ecma_builtin_object_routine_invoke (CALL_get_own_property_names arg) =
     ecma_builtin_object_object_get_own_property_names arg"
| "ecma_builtin_object_routine_invoke (CALL_seal arg) =
     ecma_builtin_object_object_seal arg"
| "ecma_builtin_object_routine_invoke (CALL_freeze arg) =
     ecma_builtin_object_object_freeze arg"
| "ecma_builtin_object_routine_invoke (CALL_prevent_extensions arg) =
     ecma_builtin_object_object_prevent_extensions arg"
| "ecma_builtin_object_routine_invoke (CALL_is_sealed arg) =
     ecma_builtin_object_object_is_sealed arg"
| "ecma_builtin_object_routine_invoke (CALL_is_frozen arg) =
     ecma_builtin_object_object_is_frozen arg"
| "ecma_builtin_object_routine_invoke (CALL_is_extensible arg) =
     ecma_builtin_object_object_is_extensible arg"
| "ecma_builtin_object_routine_invoke (CALL_keys arg) =
     ecma_builtin_object_object_keys arg"
| "ecma_builtin_object_routine_invoke (CALL_get_own_property_descriptor arg1 arg2) =
     ecma_builtin_object_object_get_own_property_descriptor arg1 arg2"
| "ecma_builtin_object_routine_invoke (CALL_create arg1 arg2) =
     ecma_builtin_object_object_create arg1 arg2"
| "ecma_builtin_object_routine_invoke (CALL_define_properties arg1 arg2) =
     ecma_builtin_object_object_define_properties arg1 arg2"
| "ecma_builtin_object_routine_invoke (CALL_define_property arg1 arg2 arg3) =
     ecma_builtin_object_object_define_property arg1 arg2 arg3"

text \<open>The routine a call is a call of, and the arguments it passes, in their order.\<close>

fun call_routine_id :: "ecma_builtin_object_routine_call \<Rightarrow> ecma_magic_string_id_t" where
  "call_routine_id (CALL_get_prototype_of arg) = ECMA_MAGIC_STRING_GET_PROTOTYPE_OF_UL"
| "call_routine_id (CALL_get_own_property_names arg) = ECMA_MAGIC_STRING_GET_OWN_PROPERTY_NAMES_UL"
| "call_routine_id (CALL_seal arg) = ECMA_MAGIC_STRING_SEAL"
| "call_routine_id (CALL_freeze arg) = ECMA_MAGIC_STRING_FREEZE"
| "call_routine_id (CALL_prevent_extensions arg) = ECMA_MAGIC_STRING_PREVENT_EXTENSIONS_UL"
| "call_routine_id (CALL_is_sealed arg) = ECMA_MAGIC_STRING_IS_SEALED_UL"
| "call_routine_id (CALL_is_frozen arg) = ECMA_MAGIC_STRING_IS_FROZEN_UL"
| "call_routine_id (CALL_is_extensible arg) = ECMA_MAGIC_STRING_IS_EXTENSIBLE"
| "call_routine_id (CALL_keys arg) = ECMA_MAGIC_STRING_KEYS"
| "call_routine_id (CALL_get_own_property_descriptor arg1 arg2) =
     ECMA_MAGIC_STRING_GET_OWN_PROPERTY_DESCRIPTOR_UL"
| "call_routine_id (CALL_create arg1 arg2) = ECMA_MAGIC_STRING_CREATE"
| "call_routine_id (CALL_define_properties arg1 arg2) = ECMA_MAGIC_STRING_DEFINE_PROPERTIES_UL"
| "call_routine_id (CALL_define_property arg1 arg2 arg3) = ECMA_MAGIC_STRING_DEFINE_PROPERTY_UL"

fun call_arguments :: "ecma_builtin_object_routine_call \<Rightarrow> ecma_value_t list" where
  "call_arguments (CALL_get_prototype_of arg) = [arg]"
| "call_arguments (CALL_get_own_property_names arg) = [arg]"
| "call_arguments (CALL_seal arg) = [arg]"
| "call_arguments (CALL_freeze arg) = [arg]"
| "call_arguments (CALL_prevent_extensions arg) = [arg]"
| "call_arguments (CALL_is_sealed arg) = [arg]"
| "call_arguments (CALL_is_frozen arg) = [arg]"
| "call_arguments (CALL_is_extensible arg) = [arg]"
| "call_arguments (CALL_keys arg) = [arg]"
| "call_arguments (CALL_get_own_property_descriptor arg1 arg2) = [arg1, arg2]"
| "call_arguments (CALL_create arg1 arg2) = [arg1, arg2]"
| "call_arguments (CALL_define_properties arg1 arg2) = [arg1, arg2]"
| "call_arguments (CALL_define_property arg1 arg2 arg3) = [arg1, arg2, arg3]"

text \<open>
  \<^verbatim>\<open>(arguments_number >= i + 1 ? arguments_list[i] : value_undefined)\<close>. The list is the array
  the caller passes and \<open>arguments_number\<close> the length the caller states; a read past the
  end of the array is \<open>JERRY_INVALID_ACCESS\<close>.
\<close>

definition ecma_dispatch_argument ::
  "ecma_value_t list \<Rightarrow> nat \<Rightarrow> nat \<Rightarrow> jerry_fatal + ecma_value_t" where
  "ecma_dispatch_argument arguments_list arguments_number i =
     (let value_undefined = ecma_make_simple_value ECMA_SIMPLE_VALUE_UNDEFINED in
      if arguments_number \<ge> i + 1
      then (if i < length arguments_list then Inr (arguments_list ! i)
            else Inl JERRY_INVALID_ACCESS)
      else Inr value_undefined)"

definition dispatch_args1 ::
  "(ecma_value_t \<Rightarrow> ecma_builtin_object_routine_call) \<Rightarrow> ecma_value_t list \<Rightarrow> nat \<Rightarrow>
   jerry_fatal + ecma_builtin_object_routine_call" where
  "dispatch_args1 handler arguments_list arguments_number =
     (case ecma_dispatch_argument arguments_list arguments_number 0 of
        Inl e \<Rightarrow> Inl e
      | Inr arg \<Rightarrow> Inr (handler arg))"

definition dispatch_args2 ::
  "(ecma_value_t \<Rightarrow> ecma_value_t \<Rightarrow> ecma_builtin_object_routine_call) \<Rightarrow> ecma_value_t list \<Rightarrow>
   nat \<Rightarrow> jerry_fatal + ecma_builtin_object_routine_call" where
  "dispatch_args2 handler arguments_list arguments_number =
     (case ecma_dispatch_argument arguments_list arguments_number 0 of
        Inl e \<Rightarrow> Inl e
      | Inr arg1 \<Rightarrow>
          (case ecma_dispatch_argument arguments_list arguments_number 1 of
             Inl e \<Rightarrow> Inl e
           | Inr arg2 \<Rightarrow> Inr (handler arg1 arg2)))"

definition dispatch_args3 ::
  "(ecma_value_t \<Rightarrow> ecma_value_t \<Rightarrow> ecma_value_t \<Rightarrow> ecma_builtin_object_routine_call) \<Rightarrow>
   ecma_value_t list \<Rightarrow> nat \<Rightarrow> jerry_fatal + ecma_builtin_object_routine_call" where
  "dispatch_args3 handler arguments_list arguments_number =
     (case ecma_dispatch_argument arguments_list arguments_number 0 of
        Inl e \<Rightarrow> Inl e
      | Inr arg1 \<Rightarrow>
          (case ecma_dispatch_argument arguments_list arguments_number 1 of
             Inl e \<Rightarrow> Inl e
           | Inr arg2 \<Rightarrow>
               (case ecma_dispatch_argument arguments_list arguments_number 2 of
                  Inl e \<Rightarrow> Inl e
                | Inr arg3 \<Rightarrow> Inr (handler arg1 arg2 arg3))))"

fun ecma_builtin_object_dispatch_routine_call ::
  "ecma_magic_string_id_t \<Rightarrow> ecma_value_t list \<Rightarrow> nat \<Rightarrow>
   jerry_fatal + ecma_builtin_object_routine_call" where
  "ecma_builtin_object_dispatch_routine_call ECMA_MAGIC_STRING_GET_PROTOTYPE_OF_UL al an =
     dispatch_args1 CALL_get_prototype_of al an"
| "ecma_builtin_object_dispatch_routine_call ECMA_MAGIC_STRING_GET_OWN_PROPERTY_NAMES_UL al an =
     dispatch_args1 CALL_get_own_property_names al an"
| "ecma_builtin_object_dispatch_routine_call ECMA_MAGIC_STRING_SEAL al an =
     dispatch_args1 CALL_seal al an"
| "ecma_builtin_object_dispatch_routine_call ECMA_MAGIC_STRING_FREEZE al an =
     dispatch_args1 CALL_freeze al an"
| "ecma_builtin_object_dispatch_routine_call ECMA_MAGIC_STRING_PREVENT_EXTENSIONS_UL al an =
     dispatch_args1 CALL_prevent_extensions al an"
| "ecma_builtin_object_dispatch_routine_call ECMA_MAGIC_STRING_IS_SEALED_UL al an =
     dispatch_args1 CALL_is_sealed al an"
| "ecma_builtin_object_dispatch_routine_call ECMA_MAGIC_STRING_IS_FROZEN_UL al an =
     dispatch_args1 CALL_is_frozen al an"
| "ecma_builtin_object_dispatch_routine_call ECMA_MAGIC_STRING_IS_EXTENSIBLE al an =
     dispatch_args1 CALL_is_extensible al an"
| "ecma_builtin_object_dispatch_routine_call ECMA_MAGIC_STRING_KEYS al an =
     dispatch_args1 CALL_keys al an"
| "ecma_builtin_object_dispatch_routine_call ECMA_MAGIC_STRING_GET_OWN_PROPERTY_DESCRIPTOR_UL al an =
     dispatch_args2 CALL_get_own_property_descriptor al an"
| "ecma_builtin_object_dispatch_routine_call ECMA_MAGIC_STRING_CREATE al an =
     dispatch_args2 CALL_create al an"
| "ecma_builtin_object_dispatch_routine_call ECMA_MAGIC_STRING_DEFINE_PROPERTIES_UL al an =
     dispatch_args2 CALL_define_properties al an"
| "ecma_builtin_object_dispatch_routine_call ECMA_MAGIC_STRING_DEFINE_PROPERTY_UL al an =
     dispatch_args3 CALL_define_property al an"
| "ecma_builtin_object_dispatch_routine_call _ al an = Inl JERRY_UNREACHABLE"

definition ecma_builtin_object_dispatch_routine ::
  "ecma_magic_string_id_t \<Rightarrow> ecma_value_t list \<Rightarrow> nat \<Rightarrow>
   jerry_fatal + ecma_completion_value_t" where
  "ecma_builtin_object_dispatch_routine builtin_routine_id arguments_list arguments_number =
     (case ecma_builtin_object_dispatch_routine_call builtin_routine_id arguments_list
             arguments_number of
        Inl e \<Rightarrow> Inl e
      | Inr call \<Rightarrow> ecma_builtin_object_routine_invoke call)"

subsection \<open>Numbering of the enumerations\<close>

text \<open>
  The object types, the object classes and the identifiers of the built-in objects are
  enumerations declared outside this file; the constructors are the members this file names
  and one more for every other member.
\<close>

datatype ecma_object_type_t =
    ECMA_OBJECT_TYPE_FUNCTION
  | ECMA_OBJECT_TYPE_OTHER nat

datatype ecma_object_class_t =
    ECMA_OBJECT_CLASS_OBJECT
  | ECMA_OBJECT_CLASS_OTHER nat

datatype ecma_builtin_id_t =
    ECMA_BUILTIN_ID_OBJECT
  | ECMA_BUILTIN_ID_OTHER nat

text \<open>
  The integer values of the members are parameters: \<open>magic_string_id_value\<close> is the value of
  a magic string identifier, by which the table is sorted and searched;
  \<open>object_class_value\<close> and \<open>builtin_id_value\<close> are the values an internal property stores.
\<close>

record ecma_enum_values =
  magic_string_id_value :: "ecma_magic_string_id_t \<Rightarrow> nat"
  object_class_value :: "ecma_object_class_t \<Rightarrow> 32 word"
  builtin_id_value :: "ecma_builtin_id_t \<Rightarrow> 32 word"

text \<open>
  What the declaration of the enumeration and the comment on the table (lines 41 to 43)
  state of the numbering: distinct members have distinct values, and the table is in
  ascending order.
\<close>

definition ecma_magic_strings_sorted :: "ecma_enum_values \<Rightarrow> bool" where
  "ecma_magic_strings_sorted E =
     (inj (magic_string_id_value E)
      \<and> sorted_wrt (<) (map (magic_string_id_value E) ecma_builtin_object_property_names))"

subsection \<open>Objects, properties and the heap\<close>

datatype ecma_property_writable_value_t =
    ECMA_PROPERTY_NOT_WRITABLE
  | ECMA_PROPERTY_WRITABLE

datatype ecma_property_enumerable_value_t =
    ECMA_PROPERTY_NOT_ENUMERABLE
  | ECMA_PROPERTY_ENUMERABLE

datatype ecma_property_configurable_value_t =
    ECMA_PROPERTY_NOT_CONFIGURABLE
  | ECMA_PROPERTY_CONFIGURABLE

datatype ecma_internal_property_id_t =
    ECMA_INTERNAL_PROPERTY_CLASS
  | ECMA_INTERNAL_PROPERTY_BUILT_IN_ID
  | ECMA_INTERNAL_PROPERTY_NON_INSTANTIATED_BUILT_IN_MASK_0_31
  | ECMA_INTERNAL_PROPERTY_OTHER nat

datatype ecma_property_t =
    ECMA_PROPERTY_NAMEDDATA ecma_string_t ecma_value_t ecma_property_writable_value_t
      ecma_property_enumerable_value_t ecma_property_configurable_value_t
  | ECMA_PROPERTY_NAMEDACCESSOR ecma_string_t "ecma_object_ptr option" "ecma_object_ptr option"
      ecma_property_enumerable_value_t ecma_property_configurable_value_t
  | ECMA_PROPERTY_INTERNAL ecma_internal_property_id_t "32 word"

text \<open>
  An object of the heap. \<open>builtin_routine\<close> is the built-in identity of a function object
  that stands for a routine of a built-in object: the built-in object and the routine.
\<close>

record ecma_object_t =
  object_type :: ecma_object_type_t
  is_extensible :: bool
  is_builtin :: bool
  builtin_routine :: "(ecma_builtin_id_t \<times> ecma_magic_string_id_t) option"
  prototype_object_p :: "ecma_object_ptr option"
  properties :: "ecma_property_t list"
  refs :: nat
  gc_generation :: nat
  gc_may_ref_younger_objects :: bool

text \<open>
  The state of the engine this file reads and writes: the heap of objects (a pointer is an
  index into it) and the file's global \<^verbatim>\<open>ecma_object_object_p\<close>, \<open>None\<close> for \<^verbatim>\<open>NULL\<close>.
\<close>

record ecma_state =
  heap :: "ecma_object_t list"
  ecma_object_object_p :: "ecma_object_ptr option"

definition ecma_get_object :: "ecma_state \<Rightarrow> ecma_object_ptr \<Rightarrow> jerry_fatal + ecma_object_t" where
  "ecma_get_object s obj_p =
     (if obj_p < length (heap s) then Inr (heap s ! obj_p) else Inl JERRY_INVALID_ACCESS)"

definition ecma_set_object :: "ecma_state \<Rightarrow> ecma_object_ptr \<Rightarrow> ecma_object_t \<Rightarrow> ecma_state" where
  "ecma_set_object s obj_p obj = s\<lparr>heap := (heap s)[obj_p := obj]\<rparr>"

subsection \<open>The property store and the helpers of the object model\<close>

text \<open>
  Modelled from the spec: \<^verbatim>\<open>ecma_create_object\<close> is not in the sources at hand. An object is
  created by an explicit constructor with its prototype, its extensible flag and its type;
  it has no property yet, its creator holds the sole reference to it, and it is of the
  youngest generation.
\<close>

definition ecma_create_object ::
  "ecma_state \<Rightarrow> ecma_object_ptr option \<Rightarrow> bool \<Rightarrow> ecma_object_type_t \<Rightarrow>
   ecma_object_ptr \<times> ecma_state" where
  "ecma_create_object s prototype_p extensible type =
     (length (heap s),
      s\<lparr>heap := heap s @
          [\<lparr>object_type = type, is_extensible = extensible, is_builtin = False,
            builtin_routine = None, prototype_object_p = prototype_p, properties = [],
            refs = 1, gc_generation = 0, gc_may_ref_younger_objects = False\<rparr>]\<rparr>)"

fun is_named_property :: "ecma_string_t \<Rightarrow> ecma_property_t \<Rightarrow> bool" where
  "is_named_property name_p (ECMA_PROPERTY_NAMEDDATA n v w e c) = (n = name_p)"
| "is_named_property name_p (ECMA_PROPERTY_NAMEDACCESSOR n g st e c) = (n = name_p)"
| "is_named_property name_p (ECMA_PROPERTY_INTERNAL i v) = False"

fun is_internal_property :: "ecma_internal_property_id_t \<Rightarrow> ecma_property_t \<Rightarrow> bool" where
  "is_internal_property property_id (ECMA_PROPERTY_INTERNAL i v) = (i = property_id)"
| "is_internal_property property_id _ = False"

text \<open>
  Modelled from the spec: \<^verbatim>\<open>ecma_find_named_property\<close> is not in the sources at hand. It
  finds a named property by exact name equality and returns "not found" (\<open>None\<close>) rather
  than failing.
\<close>

definition ecma_find_named_property ::
  "ecma_state \<Rightarrow> ecma_object_ptr \<Rightarrow> ecma_string_t \<Rightarrow> jerry_fatal + ecma_property_t option" where
  "ecma_find_named_property s obj_p name_p =
     (case ecma_get_object s obj_p of
        Inl e \<Rightarrow> Inl e
      | Inr obj \<Rightarrow> Inr (find (is_named_property name_p) (properties obj)))"

text \<open>
  Modelled from the spec: \<^verbatim>\<open>ecma_create_named_data_property\<close> is not in the sources at hand.
  It creates a named data property with the given attributes and an initial Empty value;
  that no property of the object has the name already is enforced at creation, and a
  duplicate name is fatal.
\<close>

definition ecma_create_named_data_property ::
  "ecma_state \<Rightarrow> ecma_object_ptr \<Rightarrow> ecma_string_t \<Rightarrow> ecma_property_writable_value_t \<Rightarrow>
   ecma_property_enumerable_value_t \<Rightarrow> ecma_property_configurable_value_t \<Rightarrow>
   jerry_fatal + ecma_state" where
  "ecma_create_named_data_property s obj_p name_p writable enumerable configurable =
     (case ecma_get_object s obj_p of
        Inl e \<Rightarrow> Inl e
      | Inr obj \<Rightarrow>
          if find (is_named_property name_p) (properties obj) \<noteq> None then Inl JERRY_ASSERT
          else Inr (ecma_set_object s obj_p
                 (obj\<lparr>properties :=
                    ECMA_PROPERTY_NAMEDDATA name_p (ecma_make_simple_value ECMA_SIMPLE_VALUE_EMPTY)
                      writable enumerable configurable # properties obj\<rparr>)))"

text \<open>
  The assignment \<^verbatim>\<open>prop_p->u.named_data_property.value = v\<close>, where \<^verbatim>\<open>prop_p\<close> is the named
  data property of the object with the name: the store through the pointer.
\<close>

fun set_named_data_value ::
  "ecma_string_t \<Rightarrow> ecma_value_t \<Rightarrow> ecma_property_t list \<Rightarrow> ecma_property_t list" where
  "set_named_data_value name_p v [] = []"
| "set_named_data_value name_p v (ECMA_PROPERTY_NAMEDDATA n v0 w e c # ps) =
     (if n = name_p then ECMA_PROPERTY_NAMEDDATA n v w e c # ps
      else ECMA_PROPERTY_NAMEDDATA n v0 w e c # set_named_data_value name_p v ps)"
| "set_named_data_value name_p v (p # ps) = p # set_named_data_value name_p v ps"

definition ecma_set_named_data_property_value ::
  "ecma_state \<Rightarrow> ecma_object_ptr \<Rightarrow> ecma_string_t \<Rightarrow> ecma_value_t \<Rightarrow> jerry_fatal + ecma_state" where
  "ecma_set_named_data_property_value s obj_p name_p v =
     (case ecma_get_object s obj_p of
        Inl e \<Rightarrow> Inl e
      | Inr obj \<Rightarrow>
          Inr (ecma_set_object s obj_p
                 (obj\<lparr>properties := set_named_data_value name_p v (properties obj)\<rparr>)))"

text \<open>
  Modelled from the spec: \<^verbatim>\<open>ecma_create_internal_property\<close> is not in the sources at hand. It
  creates an internal property that holds a raw numeric payload, zero at first; one
  internal property of an object per identifier, a duplicate being fatal.
\<close>

definition ecma_create_internal_property ::
  "ecma_state \<Rightarrow> ecma_object_ptr \<Rightarrow> ecma_internal_property_id_t \<Rightarrow> jerry_fatal + ecma_state" where
  "ecma_create_internal_property s obj_p property_id =
     (case ecma_get_object s obj_p of
        Inl e \<Rightarrow> Inl e
      | Inr obj \<Rightarrow>
          if find (is_internal_property property_id) (properties obj) \<noteq> None then Inl JERRY_ASSERT
          else Inr (ecma_set_object s obj_p
                 (obj\<lparr>properties := ECMA_PROPERTY_INTERNAL property_id 0 # properties obj\<rparr>)))"

text \<open>
  Modelled from the spec: \<^verbatim>\<open>ecma_get_internal_property\<close> is not in the sources at hand. It
  returns the internal property of the object with the identifier, which must exist: the
  result is the payload the property holds (\<^verbatim>\<open>prop_p->u.internal_property.value\<close>).
\<close>

definition ecma_get_internal_property ::
  "ecma_state \<Rightarrow> ecma_object_ptr \<Rightarrow> ecma_internal_property_id_t \<Rightarrow> jerry_fatal + 32 word" where
  "ecma_get_internal_property s obj_p property_id =
     (case ecma_get_object s obj_p of
        Inl e \<Rightarrow> Inl e
      | Inr obj \<Rightarrow>
          (case find (is_internal_property property_id) (properties obj) of
             Some (ECMA_PROPERTY_INTERNAL i v) \<Rightarrow> Inr v
           | _ \<Rightarrow> Inl JERRY_ASSERT))"

text \<open>
  The assignment \<^verbatim>\<open>prop_p->u.internal_property.value = v\<close>, where \<^verbatim>\<open>prop_p\<close> is the internal
  property of the object with the identifier.
\<close>

fun set_internal_value ::
  "ecma_internal_property_id_t \<Rightarrow> 32 word \<Rightarrow> ecma_property_t list \<Rightarrow> ecma_property_t list" where
  "set_internal_value property_id v [] = []"
| "set_internal_value property_id v (ECMA_PROPERTY_INTERNAL i v0 # ps) =
     (if i = property_id then ECMA_PROPERTY_INTERNAL i v # ps
      else ECMA_PROPERTY_INTERNAL i v0 # set_internal_value property_id v ps)"
| "set_internal_value property_id v (p # ps) = p # set_internal_value property_id v ps"

definition ecma_set_internal_property_value ::
  "ecma_state \<Rightarrow> ecma_object_ptr \<Rightarrow> ecma_internal_property_id_t \<Rightarrow> 32 word \<Rightarrow>
   jerry_fatal + ecma_state" where
  "ecma_set_internal_property_value s obj_p property_id v =
     (case ecma_get_object s obj_p of
        Inl e \<Rightarrow> Inl e
      | Inr obj \<Rightarrow>
          Inr (ecma_set_object s obj_p
                 (obj\<lparr>properties := set_internal_value property_id v (properties obj)\<rparr>)))"

text \<open>
  Modelled from the spec: \<^verbatim>\<open>ecma_delete_property\<close> is not in the sources at hand. Deleting
  removes the named property from the object; the mask of the properties not yet
  instantiated is not touched.
\<close>

definition ecma_delete_property ::
  "ecma_state \<Rightarrow> ecma_object_ptr \<Rightarrow> ecma_string_t \<Rightarrow> jerry_fatal + ecma_state" where
  "ecma_delete_property s obj_p name_p =
     (case ecma_get_object s obj_p of
        Inl e \<Rightarrow> Inl e
      | Inr obj \<Rightarrow>
          Inr (ecma_set_object s obj_p
                 (obj\<lparr>properties :=
                    filter (\<lambda>p. \<not> is_named_property name_p p) (properties obj)\<rparr>)))"

text \<open>
  Modelled from the spec: \<^verbatim>\<open>ecma_set_object_is_builtin\<close> is not in the sources at hand. It
  sets the flag that marks the object as a built-in one.
\<close>

definition ecma_set_object_is_builtin ::
  "ecma_state \<Rightarrow> ecma_object_ptr \<Rightarrow> bool \<Rightarrow> jerry_fatal + ecma_state" where
  "ecma_set_object_is_builtin s obj_p b =
     (case ecma_get_object s obj_p of
        Inl e \<Rightarrow> Inl e
      | Inr obj \<Rightarrow> Inr (ecma_set_object s obj_p (obj\<lparr>is_builtin := b\<rparr>)))"

text \<open>
  Modelled from the spec: the reference counting is not in the sources at hand. Taking a
  reference increments the count of the object, releasing one decrements it, and
  releasing a reference of a count already at zero is fatal.
\<close>

definition ecma_ref_object :: "ecma_state \<Rightarrow> ecma_object_ptr \<Rightarrow> jerry_fatal + ecma_state" where
  "ecma_ref_object s obj_p =
     (case ecma_get_object s obj_p of
        Inl e \<Rightarrow> Inl e
      | Inr obj \<Rightarrow> Inr (ecma_set_object s obj_p (obj\<lparr>refs := refs obj + 1\<rparr>)))"

definition ecma_deref_object :: "ecma_state \<Rightarrow> ecma_object_ptr \<Rightarrow> jerry_fatal + ecma_state" where
  "ecma_deref_object s obj_p =
     (case ecma_get_object s obj_p of
        Inl e \<Rightarrow> Inl e
      | Inr obj \<Rightarrow>
          if refs obj = 0 then Inl JERRY_ASSERT
          else Inr (ecma_set_object s obj_p (obj\<lparr>refs := refs obj - 1\<rparr>)))"

text \<open>
  Modelled from the spec: \<^verbatim>\<open>ecma_make_object_value\<close>, \<^verbatim>\<open>ecma_copy_value\<close> and
  \<^verbatim>\<open>ecma_free_value\<close> are not in the sources at hand. Constructing an Object value
  increments the reference count of its target. A copy is shallow, and its flag selects
  whether the copy takes a reference of its own. Releasing a value releases the reference
  of an Object value when the flag asks for it, and is a no-op on the heap of objects for
  every other payload.
\<close>

definition ecma_make_object_value ::
  "ecma_state \<Rightarrow> ecma_object_ptr \<Rightarrow> jerry_fatal + (ecma_value_t \<times> ecma_state)" where
  "ecma_make_object_value s object_p =
     (case ecma_ref_object s object_p of
        Inl e \<Rightarrow> Inl e
      | Inr s' \<Rightarrow> Inr (ECMA_TYPE_OBJECT object_p, s'))"

fun ecma_copy_value ::
  "ecma_state \<Rightarrow> ecma_value_t \<Rightarrow> bool \<Rightarrow> jerry_fatal + (ecma_value_t \<times> ecma_state)" where
  "ecma_copy_value s (ECMA_TYPE_OBJECT object_p) need_to_ref =
     (if need_to_ref
      then (case ecma_ref_object s object_p of
              Inl e \<Rightarrow> Inl e
            | Inr s' \<Rightarrow> Inr (ECMA_TYPE_OBJECT object_p, s'))
      else Inr (ECMA_TYPE_OBJECT object_p, s))"
| "ecma_copy_value s v need_to_ref = Inr (v, s)"

fun ecma_free_value :: "ecma_state \<Rightarrow> ecma_value_t \<Rightarrow> bool \<Rightarrow> jerry_fatal + ecma_state" where
  "ecma_free_value s (ECMA_TYPE_OBJECT object_p) do_deref =
     (if do_deref then ecma_deref_object s object_p else Inr s)"
| "ecma_free_value s v do_deref = Inr s"

text \<open>
  Modelled from the spec: \<^verbatim>\<open>ecma_gc_update_may_ref_younger_object_flag_by_value\<close> is not in
  the sources at hand. The flag of an object is set when a property write stores into it a
  reference to an object that is possibly allocated more recently: one whose generation is
  not older than the object's own.
\<close>

fun ecma_gc_update_may_ref_younger_object_flag_by_value ::
  "ecma_state \<Rightarrow> ecma_object_ptr \<Rightarrow> ecma_value_t \<Rightarrow> jerry_fatal + ecma_state" where
  "ecma_gc_update_may_ref_younger_object_flag_by_value s obj_p (ECMA_TYPE_OBJECT ref_obj_p) =
     (case ecma_get_object s obj_p of
        Inl e \<Rightarrow> Inl e
      | Inr obj \<Rightarrow>
          (case ecma_get_object s ref_obj_p of
             Inl e \<Rightarrow> Inl e
           | Inr ref_obj \<Rightarrow>
               if gc_generation ref_obj \<le> gc_generation obj
               then Inr (ecma_set_object s obj_p (obj\<lparr>gc_may_ref_younger_objects := True\<rparr>))
               else Inr s))"
| "ecma_gc_update_may_ref_younger_object_flag_by_value s obj_p v = Inr s"

text \<open>
  Modelled from the spec: \<^verbatim>\<open>ecma_is_string_magic\<close> is not in the sources at hand. A string
  is magic when it is an interned magic string, and then has the identifier it interns.
\<close>

fun ecma_is_string_magic :: "ecma_string_t \<Rightarrow> ecma_magic_string_id_t option" where
  "ecma_is_string_magic (ECMA_STRING_MAGIC magic_id) = Some magic_id"
| "ecma_is_string_magic (ECMA_STRING_HEAP chars) = None"

text \<open>
  Modelled from the spec: \<^verbatim>\<open>ecma_builtin_make_function_object_for_routine\<close> is not in the
  sources at hand. The registration path of the dispatcher builds the callable Function
  value of a routine: a new object of the function type whose built-in identity is the
  built-in object and the routine.
\<close>

definition ecma_builtin_make_function_object_for_routine ::
  "ecma_state \<Rightarrow> ecma_builtin_id_t \<Rightarrow> ecma_magic_string_id_t \<Rightarrow>
   jerry_fatal + (ecma_object_ptr \<times> ecma_state)" where
  "ecma_builtin_make_function_object_for_routine s builtin_id routine_id =
     (let (func_obj_p, s1) = ecma_create_object s None True ECMA_OBJECT_TYPE_FUNCTION in
      case ecma_get_object s1 func_obj_p of
        Inl e \<Rightarrow> Inl e
      | Inr func_obj \<Rightarrow>
          Inr (func_obj_p,
               ecma_set_object s1 func_obj_p
                 (func_obj\<lparr>is_builtin := True, builtin_routine := Some (builtin_id, routine_id)\<rparr>)))"

subsection \<open>The search of the table\<close>

text \<open>
  Modelled from the spec: \<^verbatim>\<open>ecma_builtin_bin_search_for_magic_string_id_in_array\<close> is not in
  the sources at hand. It is a binary search of the table of identifiers, sorted in
  ascending order, for the requested identifier; the result is the index of the
  identifier, or \<open>-1\<close> when the identifier is absent. The loop runs while \<open>min \<le> max\<close>,
  from \<open>0\<close> and \<open>array_length - 1\<close>; the guard of the model also states that the two
  indices are within the array, which they are whenever \<open>array_length\<close> is the length of
  the array.
\<close>

function bin_search_loop ::
  "(ecma_magic_string_id_t \<Rightarrow> nat) \<Rightarrow> ecma_magic_string_id_t list \<Rightarrow> ecma_magic_string_id_t \<Rightarrow>
   int \<Rightarrow> int \<Rightarrow> int" where
  "bin_search_loop val ids key mn mx =
     (if 0 \<le> mn \<and> mn \<le> mx \<and> mx < int (length ids)
      then (let mid = (mn + mx) div 2 in
            if val (ids ! nat mid) = val key then mid
            else if val (ids ! nat mid) > val key then bin_search_loop val ids key mn (mid - 1)
            else bin_search_loop val ids key (mid + 1) mx)
      else -1)"
  by pat_completeness auto
termination
  by (relation "measure (\<lambda>(val, ids, key, mn, mx). nat (mx - mn + 1))") auto

declare bin_search_loop.simps [simp del]

definition ecma_builtin_bin_search_for_magic_string_id_in_array ::
  "ecma_enum_values \<Rightarrow> ecma_magic_string_id_t list \<Rightarrow> nat \<Rightarrow> ecma_magic_string_id_t \<Rightarrow> int" where
  "ecma_builtin_bin_search_for_magic_string_id_in_array E ids array_length key =
     bin_search_loop (magic_string_id_value E) ids key 0 (int array_length - 1)"

subsection \<open>The Object object (lines 74 to 151)\<close>

definition ecma_builtin_is_object_object :: "ecma_state \<Rightarrow> ecma_object_ptr \<Rightarrow> bool" where
  "ecma_builtin_is_object_object s object_p = (Some object_p = ecma_object_object_p s)"

definition ecma_builtin_get_object_object ::
  "ecma_state \<Rightarrow> jerry_fatal + (ecma_object_ptr \<times> ecma_state)" where
  "ecma_builtin_get_object_object s =
     (case ecma_object_object_p s of
        None \<Rightarrow> Inl JERRY_ASSERT
      | Some object_p \<Rightarrow>
          (case ecma_ref_object s object_p of
             Inl e \<Rightarrow> Inl e
           | Inr s' \<Rightarrow> Inr (object_p, s')))"

text \<open>
  The initial value of the mask (line 130): \<^verbatim>\<open>((uint32_t) 1u << number) - 1\<close>, in 32 bits.
  The static assertion of line 129, that the number of properties is below 32, is checked
  when the file is compiled.
\<close>

definition ecma_builtin_object_initial_mask :: "32 word" where
  "ecma_builtin_object_initial_mask = push_bit ecma_builtin_object_property_number 1 - 1"

definition ecma_builtin_init_object_object ::
  "ecma_enum_values \<Rightarrow> ecma_state \<Rightarrow> jerry_fatal + ecma_state" where
  "ecma_builtin_init_object_object E s =
     (if ecma_object_object_p s \<noteq> None then Inl JERRY_ASSERT
      else
        let (object_obj_p, s1) = ecma_create_object s None True ECMA_OBJECT_TYPE_FUNCTION in
        case ecma_create_internal_property s1 object_obj_p ECMA_INTERNAL_PROPERTY_CLASS of
          Inl e \<Rightarrow> Inl e
        | Inr s2 \<Rightarrow>
        case ecma_set_internal_property_value s2 object_obj_p ECMA_INTERNAL_PROPERTY_CLASS
               (object_class_value E ECMA_OBJECT_CLASS_OBJECT) of
          Inl e \<Rightarrow> Inl e
        | Inr s3 \<Rightarrow>
        case ecma_create_internal_property s3 object_obj_p ECMA_INTERNAL_PROPERTY_BUILT_IN_ID of
          Inl e \<Rightarrow> Inl e
        | Inr s4 \<Rightarrow>
        case ecma_set_internal_property_value s4 object_obj_p ECMA_INTERNAL_PROPERTY_BUILT_IN_ID
               (builtin_id_value E ECMA_BUILTIN_ID_OBJECT) of
          Inl e \<Rightarrow> Inl e
        | Inr s5 \<Rightarrow>
        case ecma_create_internal_property s5 object_obj_p
               ECMA_INTERNAL_PROPERTY_NON_INSTANTIATED_BUILT_IN_MASK_0_31 of
          Inl e \<Rightarrow> Inl e
        | Inr s6 \<Rightarrow>
        let builtin_mask = ecma_builtin_object_initial_mask in
        case ecma_set_internal_property_value s6 object_obj_p
               ECMA_INTERNAL_PROPERTY_NON_INSTANTIATED_BUILT_IN_MASK_0_31 builtin_mask of
          Inl e \<Rightarrow> Inl e
        | Inr s7 \<Rightarrow>
        case ecma_set_object_is_builtin s7 object_obj_p True of
          Inl e \<Rightarrow> Inl e
        | Inr s8 \<Rightarrow> Inr (s8\<lparr>ecma_object_object_p := Some object_obj_p\<rparr>))"

definition ecma_builtin_finalize_object_object :: "ecma_state \<Rightarrow> jerry_fatal + ecma_state" where
  "ecma_builtin_finalize_object_object s =
     (case ecma_object_object_p s of
        None \<Rightarrow> Inl JERRY_ASSERT
      | Some object_p \<Rightarrow>
          (case ecma_deref_object s object_p of
             Inl e \<Rightarrow> Inl e
           | Inr s' \<Rightarrow> Inr (s'\<lparr>ecma_object_object_p := None\<rparr>)))"

subsection \<open>Lazy instantiation (lines 523 to 635)\<close>

text \<open>
  The \<^verbatim>\<open>switch\<close> of lines 569 to 620: the value and the attributes of the property to
  create. The attributes start as writable, not enumerable and configurable (lines 565 to
  567). The case of the prototype reaches \<^verbatim>\<open>JERRY_UNIMPLEMENTED\<close> before it sets anything.
\<close>

definition instantiate_routine ::
  "ecma_state \<Rightarrow> ecma_magic_string_id_t \<Rightarrow>
   jerry_fatal + (ecma_value_t \<times> ecma_property_writable_value_t \<times>
     ecma_property_enumerable_value_t \<times> ecma_property_configurable_value_t \<times> ecma_state)" where
  "instantiate_routine s magic_id =
     (case ecma_builtin_make_function_object_for_routine s ECMA_BUILTIN_ID_OBJECT magic_id of
        Inl e \<Rightarrow> Inl e
      | Inr (func_obj_p, s1) \<Rightarrow>
          (case ecma_make_object_value s1 func_obj_p of
             Inl e \<Rightarrow> Inl e
           | Inr (v, s2) \<Rightarrow>
               Inr (v, ECMA_PROPERTY_WRITABLE, ECMA_PROPERTY_NOT_ENUMERABLE,
                    ECMA_PROPERTY_CONFIGURABLE, s2)))"

fun ecma_builtin_object_instantiate_value ::
  "ecma_state \<Rightarrow> ecma_magic_string_id_t \<Rightarrow>
   jerry_fatal + (ecma_value_t \<times> ecma_property_writable_value_t \<times>
     ecma_property_enumerable_value_t \<times> ecma_property_configurable_value_t \<times> ecma_state)" where
  "ecma_builtin_object_instantiate_value s ECMA_MAGIC_STRING_GET_PROTOTYPE_OF_UL =
     instantiate_routine s ECMA_MAGIC_STRING_GET_PROTOTYPE_OF_UL"
| "ecma_builtin_object_instantiate_value s ECMA_MAGIC_STRING_GET_OWN_PROPERTY_NAMES_UL =
     instantiate_routine s ECMA_MAGIC_STRING_GET_OWN_PROPERTY_NAMES_UL"
| "ecma_builtin_object_instantiate_value s ECMA_MAGIC_STRING_SEAL =
     instantiate_routine s ECMA_MAGIC_STRING_SEAL"
| "ecma_builtin_object_instantiate_value s ECMA_MAGIC_STRING_FREEZE =
     instantiate_routine s ECMA_MAGIC_STRING_FREEZE"
| "ecma_builtin_object_instantiate_value s ECMA_MAGIC_STRING_PREVENT_EXTENSIONS_UL =
     instantiate_routine s ECMA_MAGIC_STRING_PREVENT_EXTENSIONS_UL"
| "ecma_builtin_object_instantiate_value s ECMA_MAGIC_STRING_IS_SEALED_UL =
     instantiate_routine s ECMA_MAGIC_STRING_IS_SEALED_UL"
| "ecma_builtin_object_instantiate_value s ECMA_MAGIC_STRING_IS_FROZEN_UL =
     instantiate_routine s ECMA_MAGIC_STRING_IS_FROZEN_UL"
| "ecma_builtin_object_instantiate_value s ECMA_MAGIC_STRING_IS_EXTENSIBLE =
     instantiate_routine s ECMA_MAGIC_STRING_IS_EXTENSIBLE"
| "ecma_builtin_object_instantiate_value s ECMA_MAGIC_STRING_KEYS =
     instantiate_routine s ECMA_MAGIC_STRING_KEYS"
| "ecma_builtin_object_instantiate_value s ECMA_MAGIC_STRING_GET_OWN_PROPERTY_DESCRIPTOR_UL =
     instantiate_routine s ECMA_MAGIC_STRING_GET_OWN_PROPERTY_DESCRIPTOR_UL"
| "ecma_builtin_object_instantiate_value s ECMA_MAGIC_STRING_CREATE =
     instantiate_routine s ECMA_MAGIC_STRING_CREATE"
| "ecma_builtin_object_instantiate_value s ECMA_MAGIC_STRING_DEFINE_PROPERTY_UL =
     instantiate_routine s ECMA_MAGIC_STRING_DEFINE_PROPERTY_UL"
| "ecma_builtin_object_instantiate_value s ECMA_MAGIC_STRING_DEFINE_PROPERTIES_UL =
     instantiate_routine s ECMA_MAGIC_STRING_DEFINE_PROPERTIES_UL"
| "ecma_builtin_object_instantiate_value s ECMA_MAGIC_STRING_PROTOTYPE =
     Inl JERRY_UNIMPLEMENTED"
| "ecma_builtin_object_instantiate_value s ECMA_MAGIC_STRING_LENGTH =
     (let num_p = ECMA_NUMBER_ONE;
          v = ecma_make_number_value num_p
      in Inr (v, ECMA_PROPERTY_NOT_WRITABLE, ECMA_PROPERTY_NOT_ENUMERABLE,
              ECMA_PROPERTY_NOT_CONFIGURABLE, s))"
| "ecma_builtin_object_instantiate_value s _ = Inl JERRY_UNREACHABLE"

text \<open>
  Lines 622 to 634: the property is created, takes the value, the flag of the collector is
  brought up to date and the local value is released. The result is the property the
  returned pointer points to.
\<close>

definition ecma_builtin_object_attach_property ::
  "ecma_state \<Rightarrow> ecma_object_ptr \<Rightarrow> ecma_string_t \<Rightarrow> ecma_value_t \<Rightarrow>
   ecma_property_writable_value_t \<Rightarrow> ecma_property_enumerable_value_t \<Rightarrow>
   ecma_property_configurable_value_t \<Rightarrow> jerry_fatal + (ecma_property_t option \<times> ecma_state)" where
  "ecma_builtin_object_attach_property s obj_p prop_name_p v writable enumerable configurable =
     (case ecma_create_named_data_property s obj_p prop_name_p writable enumerable
             configurable of
        Inl e \<Rightarrow> Inl e
      | Inr s1 \<Rightarrow>
     (case ecma_copy_value s1 v False of
        Inl e \<Rightarrow> Inl e
      | Inr (copy, s2) \<Rightarrow>
     (case ecma_set_named_data_property_value s2 obj_p prop_name_p copy of
        Inl e \<Rightarrow> Inl e
      | Inr s3 \<Rightarrow>
     (case ecma_gc_update_may_ref_younger_object_flag_by_value s3 obj_p copy of
        Inl e \<Rightarrow> Inl e
      | Inr s4 \<Rightarrow>
     (case ecma_free_value s4 v True of
        Inl e \<Rightarrow> Inl e
      | Inr s5 \<Rightarrow>
     (case ecma_find_named_property s5 obj_p prop_name_p of
        Inl e \<Rightarrow> Inl e
      | Inr prop_p \<Rightarrow> Inr (prop_p, s5)))))))"

text \<open>
  Lines 548 to 634, for the identifier found at \<open>index\<close> of the table: the test of the bit
  of the mask, the clearing of the bit, and the creation of the property.
\<close>

definition ecma_builtin_object_instantiate_at ::
  "ecma_state \<Rightarrow> ecma_object_ptr \<Rightarrow> ecma_string_t \<Rightarrow> ecma_magic_string_id_t \<Rightarrow> nat \<Rightarrow>
   jerry_fatal + (ecma_property_t option \<times> ecma_state)" where
  "ecma_builtin_object_instantiate_at s obj_p prop_name_p magic_id index =
     (let bit = (push_bit index 1 :: 32 word) in
      case ecma_get_internal_property s obj_p
             ECMA_INTERNAL_PROPERTY_NON_INSTANTIATED_BUILT_IN_MASK_0_31 of
        Inl e \<Rightarrow> Inl e
      | Inr bit_mask \<Rightarrow>
          if bit_mask AND bit = 0 then Inr (None, s)
          else
            (case ecma_set_internal_property_value s obj_p
                    ECMA_INTERNAL_PROPERTY_NON_INSTANTIATED_BUILT_IN_MASK_0_31
                    (bit_mask AND NOT bit) of
               Inl e \<Rightarrow> Inl e
             | Inr s1 \<Rightarrow>
            (case ecma_builtin_object_instantiate_value s1 magic_id of
               Inl e \<Rightarrow> Inl e
             | Inr (v, writable, enumerable, configurable, s2) \<Rightarrow>
                 ecma_builtin_object_attach_property s2 obj_p prop_name_p v writable enumerable
                   configurable)))"

text \<open>
  The function. The result is \<open>None\<close> for \<^verbatim>\<open>NULL\<close>, and the property for a pointer to it,
  with the state the call leaves.
\<close>

definition ecma_builtin_object_try_to_instantiate_property ::
  "ecma_enum_values \<Rightarrow> ecma_state \<Rightarrow> ecma_object_ptr \<Rightarrow> ecma_string_t \<Rightarrow>
   jerry_fatal + (ecma_property_t option \<times> ecma_state)" where
  "ecma_builtin_object_try_to_instantiate_property E s obj_p prop_name_p =
     (if \<not> ecma_builtin_is_object_object s obj_p then Inl JERRY_ASSERT
      else
        case ecma_find_named_property s obj_p prop_name_p of
          Inl e \<Rightarrow> Inl e
        | Inr (Some found) \<Rightarrow> Inl JERRY_ASSERT
        | Inr None \<Rightarrow>
            (case ecma_is_string_magic prop_name_p of
               None \<Rightarrow> Inr (None, s)
             | Some magic_id \<Rightarrow>
                 let index = ecma_builtin_bin_search_for_magic_string_id_in_array E
                               ecma_builtin_object_property_names
                               ecma_builtin_object_property_number magic_id
                 in
                 if index = -1 then Inr (None, s)
                 else if \<not> (index \<ge> 0 \<and> nat index < 32) then Inl JERRY_ASSERT
                 else ecma_builtin_object_instantiate_at s obj_p prop_name_p magic_id (nat index)))"

subsection \<open>Requests in a row, and what is read of a state\<close>

text \<open>
  A sequence of requests for properties of the Object object, one after the other; each
  must return a property, a request that reports "not found" ending the sequence with
  \<open>None\<close>. The result is the state after the last one.
\<close>

fun instantiate_all ::
  "ecma_enum_values \<Rightarrow> ecma_state \<Rightarrow> ecma_object_ptr \<Rightarrow> ecma_magic_string_id_t list \<Rightarrow>
   jerry_fatal + ecma_state option" where
  "instantiate_all E s obj_p [] = Inr (Some s)"
| "instantiate_all E s obj_p (magic_id # ids) =
     (case ecma_builtin_object_try_to_instantiate_property E s obj_p (ECMA_STRING_MAGIC magic_id) of
        Inl e \<Rightarrow> Inl e
      | Inr (None, s') \<Rightarrow> Inr None
      | Inr (Some prop_p, s') \<Rightarrow> instantiate_all E s' obj_p ids)"

text \<open>The number of bits that are set in a mask.\<close>

definition mask_bits_set :: "32 word \<Rightarrow> nat" where
  "mask_bits_set m = length (filter (bit m) [0 ..< 32])"

text \<open>The state before the built-in objects are initialised: no object, no Object object.\<close>

definition ecma_empty_state :: ecma_state where
  "ecma_empty_state = \<lparr>heap = [], ecma_object_object_p = None\<rparr>"

text \<open>
  A numbering of the enumerations for the examples: the members in the order of the
  constructors, so that the table is ascending.
\<close>

fun example_magic_string_id_value :: "ecma_magic_string_id_t \<Rightarrow> nat" where
  "example_magic_string_id_value ECMA_MAGIC_STRING_PROTOTYPE = 0"
| "example_magic_string_id_value ECMA_MAGIC_STRING_LENGTH = 1"
| "example_magic_string_id_value ECMA_MAGIC_STRING_GET_PROTOTYPE_OF_UL = 2"
| "example_magic_string_id_value ECMA_MAGIC_STRING_GET_OWN_PROPERTY_DESCRIPTOR_UL = 3"
| "example_magic_string_id_value ECMA_MAGIC_STRING_GET_OWN_PROPERTY_NAMES_UL = 4"
| "example_magic_string_id_value ECMA_MAGIC_STRING_CREATE = 5"
| "example_magic_string_id_value ECMA_MAGIC_STRING_DEFINE_PROPERTY_UL = 6"
| "example_magic_string_id_value ECMA_MAGIC_STRING_DEFINE_PROPERTIES_UL = 7"
| "example_magic_string_id_value ECMA_MAGIC_STRING_SEAL = 8"
| "example_magic_string_id_value ECMA_MAGIC_STRING_FREEZE = 9"
| "example_magic_string_id_value ECMA_MAGIC_STRING_PREVENT_EXTENSIONS_UL = 10"
| "example_magic_string_id_value ECMA_MAGIC_STRING_IS_SEALED_UL = 11"
| "example_magic_string_id_value ECMA_MAGIC_STRING_IS_FROZEN_UL = 12"
| "example_magic_string_id_value ECMA_MAGIC_STRING_IS_EXTENSIBLE = 13"
| "example_magic_string_id_value ECMA_MAGIC_STRING_KEYS = 14"
| "example_magic_string_id_value ECMA_MAGIC_STRING_TO_STRING_UL = 15"
| "example_magic_string_id_value (ECMA_MAGIC_STRING_OTHER k) = 16 + k"

definition example_enum_values :: ecma_enum_values where
  "example_enum_values =
     \<lparr>magic_string_id_value = example_magic_string_id_value,
      object_class_value = (\<lambda>c. case c of ECMA_OBJECT_CLASS_OBJECT \<Rightarrow> 0
                                 | ECMA_OBJECT_CLASS_OTHER k \<Rightarrow> 1 + of_nat k),
      builtin_id_value = (\<lambda>b. case b of ECMA_BUILTIN_ID_OBJECT \<Rightarrow> 0
                               | ECMA_BUILTIN_ID_OTHER k \<Rightarrow> 1 + of_nat k)\<rparr>"

subsection \<open>Definitions for the statements\<close>

text \<open>The identifier of the internal property that holds the mask, for short.\<close>

abbreviation "MASK \<equiv> ECMA_INTERNAL_PROPERTY_NON_INSTANTIATED_BUILT_IN_MASK_0_31"

text \<open>
  The function object the lazy instantiation leaves for a routine: what the registration
  path builds, with \<open>n\<close> references.
\<close>

definition routine_function_object :: "ecma_magic_string_id_t \<Rightarrow> nat \<Rightarrow> ecma_object_t" where
  "routine_function_object rid n =
     \<lparr>object_type = ECMA_OBJECT_TYPE_FUNCTION, is_extensible = True, is_builtin = True,
      builtin_routine = Some (ECMA_BUILTIN_ID_OBJECT, rid), prototype_object_p = None,
      properties = [], refs = n, gc_generation = 0, gc_may_ref_younger_objects = False\<rparr>"

text \<open>
  What holds of a state between two requests: \<open>p\<close> is the Object object, its mask is
  \<open>m\<close>, and every named property it has is a magic string of \<open>D\<close>.
\<close>

definition object_object_inv ::
  "ecma_state \<Rightarrow> ecma_object_ptr \<Rightarrow> 32 word \<Rightarrow> ecma_magic_string_id_t set \<Rightarrow> bool" where
  "object_object_inv s p m D =
     (ecma_object_object_p s = Some p \<and> p < length (heap s)
      \<and> find (is_internal_property MASK) (properties (heap s ! p)) =
          Some (ECMA_PROPERTY_INTERNAL MASK m)
      \<and> (\<forall>n. find (is_named_property n) (properties (heap s ! p)) \<noteq> None \<longrightarrow>
               n \<in> ECMA_STRING_MAGIC ` D))"

text \<open>
  The states of the examples: the Object object just initialised, that state after a
  request for \<^verbatim>\<open>"keys"\<close>, and the latter after the property is deleted again.
\<close>

definition example_fresh_state :: ecma_state where
  "example_fresh_state =
     (case ecma_builtin_init_object_object example_enum_values ecma_empty_state of
        Inr s \<Rightarrow> s
      | Inl e \<Rightarrow> ecma_empty_state)"

definition example_keys_state :: ecma_state where
  "example_keys_state =
     (case ecma_builtin_object_try_to_instantiate_property example_enum_values
             example_fresh_state 0 (ECMA_STRING_MAGIC ECMA_MAGIC_STRING_KEYS) of
        Inr (prop_p, s) \<Rightarrow> s
      | Inl e \<Rightarrow> ecma_empty_state)"

definition example_keys_deleted_state :: ecma_state where
  "example_keys_deleted_state =
     (case ecma_delete_property example_keys_state 0
             (ECMA_STRING_MAGIC ECMA_MAGIC_STRING_KEYS) of
        Inr s \<Rightarrow> s
      | Inl e \<Rightarrow> ecma_empty_state)"

section \<open>Properties of the dispatcher\<close>

lemma routine_id_cases:
  assumes "rid \<in> set ecma_builtin_object_routine_ids"
  obtains "rid = ECMA_MAGIC_STRING_GET_PROTOTYPE_OF_UL"
        | "rid = ECMA_MAGIC_STRING_GET_OWN_PROPERTY_NAMES_UL"
        | "rid = ECMA_MAGIC_STRING_SEAL"
        | "rid = ECMA_MAGIC_STRING_FREEZE"
        | "rid = ECMA_MAGIC_STRING_PREVENT_EXTENSIONS_UL"
        | "rid = ECMA_MAGIC_STRING_IS_SEALED_UL"
        | "rid = ECMA_MAGIC_STRING_IS_FROZEN_UL"
        | "rid = ECMA_MAGIC_STRING_IS_EXTENSIBLE"
        | "rid = ECMA_MAGIC_STRING_KEYS"
        | "rid = ECMA_MAGIC_STRING_GET_OWN_PROPERTY_DESCRIPTOR_UL"
        | "rid = ECMA_MAGIC_STRING_CREATE"
        | "rid = ECMA_MAGIC_STRING_DEFINE_PROPERTIES_UL"
        | "rid = ECMA_MAGIC_STRING_DEFINE_PROPERTY_UL"
  using assms unfolding ecma_builtin_object_routine_ids_def by auto

lemma ecma_dispatch_argument_in_range:
  "arguments_number \<le> length arguments_list \<Longrightarrow>
   ecma_dispatch_argument arguments_list arguments_number i =
     Inr (if i < arguments_number then arguments_list ! i
          else ecma_make_simple_value ECMA_SIMPLE_VALUE_UNDEFINED)"
  by (simp add: ecma_dispatch_argument_def)

lemma dispatch_args1_in_range:
  "arguments_number \<le> length arguments_list \<Longrightarrow>
   dispatch_args1 h arguments_list arguments_number =
     Inr (h (if 0 < arguments_number then arguments_list ! 0
             else ecma_make_simple_value ECMA_SIMPLE_VALUE_UNDEFINED))"
  by (simp add: dispatch_args1_def ecma_dispatch_argument_in_range)

lemma dispatch_args2_in_range:
  "arguments_number \<le> length arguments_list \<Longrightarrow>
   dispatch_args2 h arguments_list arguments_number =
     Inr (h (if 0 < arguments_number then arguments_list ! 0
             else ecma_make_simple_value ECMA_SIMPLE_VALUE_UNDEFINED)
            (if 1 < arguments_number then arguments_list ! 1
             else ecma_make_simple_value ECMA_SIMPLE_VALUE_UNDEFINED))"
  by (simp add: dispatch_args2_def ecma_dispatch_argument_in_range)

lemma dispatch_args3_in_range:
  "arguments_number \<le> length arguments_list \<Longrightarrow>
   dispatch_args3 h arguments_list arguments_number =
     Inr (h (if 0 < arguments_number then arguments_list ! 0
             else ecma_make_simple_value ECMA_SIMPLE_VALUE_UNDEFINED)
            (if 1 < arguments_number then arguments_list ! 1
             else ecma_make_simple_value ECMA_SIMPLE_VALUE_UNDEFINED)
            (if 2 < arguments_number then arguments_list ! 2
             else ecma_make_simple_value ECMA_SIMPLE_VALUE_UNDEFINED))"
  by (simp add: dispatch_args3_def ecma_dispatch_argument_in_range)

lemmas dispatch_args_in_range =
  dispatch_args1_in_range dispatch_args2_in_range dispatch_args3_in_range

lemma dispatch_routine_call_in_range:
  assumes "rid \<in> set ecma_builtin_object_routine_ids"
      and "arguments_number \<le> length arguments_list"
  shows "\<exists>call. ecma_builtin_object_dispatch_routine_call rid arguments_list
                  arguments_number = Inr call
           \<and> call_routine_id call = rid
           \<and> call_arguments call =
               map (\<lambda>i. if i < arguments_number then arguments_list ! i
                        else ecma_make_simple_value ECMA_SIMPLE_VALUE_UNDEFINED)
                 [0 ..< length (call_arguments call)]"
  using assms(1)
  by (cases rule: routine_id_cases)
     (simp_all add: dispatch_args_in_range [OF assms(2)] upt_rec numeral_2_eq_2)

text \<open>
  Claim C4. For every routine identifier of the Object built-in and every argument count
  the caller supplies (an array at least that long), the dispatcher makes a call whose
  argument at each position below the count is the caller's and at each position from the
  count on is the Undefined simple value; that call is what the dispatcher invokes. A
  two-argument routine (getOwnPropertyDescriptor, create, defineProperties) with no
  argument supplied is called with Undefined twice.
\<close>

theorem dispatch_defaults_missing_arguments:
  assumes "builtin_routine_id \<in> set ecma_builtin_object_routine_ids"
      and "arguments_number \<le> length arguments_list"
  shows "(\<exists>call.
            ecma_builtin_object_dispatch_routine_call builtin_routine_id arguments_list
              arguments_number = Inr call
          \<and> ecma_builtin_object_dispatch_routine builtin_routine_id arguments_list
              arguments_number = ecma_builtin_object_routine_invoke call
          \<and> (\<forall>i < length (call_arguments call).
                call_arguments call ! i =
                  (if i < arguments_number then arguments_list ! i
                   else ecma_make_simple_value ECMA_SIMPLE_VALUE_UNDEFINED)))
       \<and> ecma_builtin_object_dispatch_routine_call
            ECMA_MAGIC_STRING_GET_OWN_PROPERTY_DESCRIPTOR_UL arguments_list 0 =
            Inr (CALL_get_own_property_descriptor
                   (ecma_make_simple_value ECMA_SIMPLE_VALUE_UNDEFINED)
                   (ecma_make_simple_value ECMA_SIMPLE_VALUE_UNDEFINED))
       \<and> ecma_builtin_object_dispatch_routine_call ECMA_MAGIC_STRING_CREATE arguments_list 0 =
            Inr (CALL_create
                   (ecma_make_simple_value ECMA_SIMPLE_VALUE_UNDEFINED)
                   (ecma_make_simple_value ECMA_SIMPLE_VALUE_UNDEFINED))
       \<and> ecma_builtin_object_dispatch_routine_call ECMA_MAGIC_STRING_DEFINE_PROPERTIES_UL
            arguments_list 0 =
            Inr (CALL_define_properties
                   (ecma_make_simple_value ECMA_SIMPLE_VALUE_UNDEFINED)
                   (ecma_make_simple_value ECMA_SIMPLE_VALUE_UNDEFINED))"
proof -
  obtain call where c:
    "ecma_builtin_object_dispatch_routine_call builtin_routine_id arguments_list
       arguments_number = Inr call"
    and a: "call_arguments call =
               map (\<lambda>i. if i < arguments_number then arguments_list ! i
                        else ecma_make_simple_value ECMA_SIMPLE_VALUE_UNDEFINED)
                 [0 ..< length (call_arguments call)]"
    using dispatch_routine_call_in_range [OF assms] by blast
  have "\<forall>i < length (call_arguments call).
          call_arguments call ! i =
            (if i < arguments_number then arguments_list ! i
             else ecma_make_simple_value ECMA_SIMPLE_VALUE_UNDEFINED)"
  proof (intro allI impI)
    fix i assume i: "i < length (call_arguments call)"
    have "call_arguments call ! i =
            map (\<lambda>i. if i < arguments_number then arguments_list ! i
                     else ecma_make_simple_value ECMA_SIMPLE_VALUE_UNDEFINED)
              [0 ..< length (call_arguments call)] ! i"
      using a by simp
    also have "\<dots> = (if i < arguments_number then arguments_list ! i
                     else ecma_make_simple_value ECMA_SIMPLE_VALUE_UNDEFINED)"
      using i by simp
    finally show "call_arguments call ! i =
            (if i < arguments_number then arguments_list ! i
             else ecma_make_simple_value ECMA_SIMPLE_VALUE_UNDEFINED)" .
  qed
  moreover have "ecma_builtin_object_dispatch_routine builtin_routine_id arguments_list
              arguments_number = ecma_builtin_object_routine_invoke call"
    by (simp add: ecma_builtin_object_dispatch_routine_def c)
  moreover have "dispatch_args2 h arguments_list 0 =
      Inr (h (ecma_make_simple_value ECMA_SIMPLE_VALUE_UNDEFINED)
             (ecma_make_simple_value ECMA_SIMPLE_VALUE_UNDEFINED))" for h
    by (simp add: dispatch_args2_def ecma_dispatch_argument_def)
  ultimately show ?thesis using c by simp
qed

theorem dispatch_defaults_missing_arguments_witness:
  "ECMA_MAGIC_STRING_DEFINE_PROPERTY_UL \<in> set ecma_builtin_object_routine_ids
   \<and> (1::nat) \<le> length [ECMA_TYPE_NUMBER 7]
   \<and> ecma_builtin_object_dispatch_routine_call ECMA_MAGIC_STRING_DEFINE_PROPERTY_UL
        [ECMA_TYPE_NUMBER 7] 1 =
        Inr (CALL_define_property (ECMA_TYPE_NUMBER 7)
               (ECMA_TYPE_SIMPLE ECMA_SIMPLE_VALUE_UNDEFINED)
               (ECMA_TYPE_SIMPLE ECMA_SIMPLE_VALUE_UNDEFINED))
   \<and> ecma_builtin_object_dispatch_routine_call ECMA_MAGIC_STRING_CREATE [] 0 =
        Inr (CALL_create (ECMA_TYPE_SIMPLE ECMA_SIMPLE_VALUE_UNDEFINED)
               (ECMA_TYPE_SIMPLE ECMA_SIMPLE_VALUE_UNDEFINED))"
proof -
  have m: "ECMA_MAGIC_STRING_DEFINE_PROPERTY_UL \<in> set ecma_builtin_object_routine_ids"
    by (simp add: ecma_builtin_object_routine_ids_def)
  have l: "(1::nat) \<le> length [ECMA_TYPE_NUMBER 7]" by simp
  from dispatch_defaults_missing_arguments [OF m l]
  have "ecma_builtin_object_dispatch_routine_call ECMA_MAGIC_STRING_CREATE
          [ECMA_TYPE_NUMBER 7] 0 =
        Inr (CALL_create (ecma_make_simple_value ECMA_SIMPLE_VALUE_UNDEFINED)
               (ecma_make_simple_value ECMA_SIMPLE_VALUE_UNDEFINED))"
    by simp
  moreover have "ecma_builtin_object_dispatch_routine_call ECMA_MAGIC_STRING_DEFINE_PROPERTY_UL
        [ECMA_TYPE_NUMBER 7] 1 =
        Inr (CALL_define_property (ECMA_TYPE_NUMBER 7)
               (ECMA_TYPE_SIMPLE ECMA_SIMPLE_VALUE_UNDEFINED)
               (ECMA_TYPE_SIMPLE ECMA_SIMPLE_VALUE_UNDEFINED))"
    by (simp add: dispatch_args3_def ecma_dispatch_argument_def ecma_make_simple_value_def)
  moreover have "ecma_builtin_object_dispatch_routine_call ECMA_MAGIC_STRING_CREATE [] 0 =
        Inr (CALL_create (ECMA_TYPE_SIMPLE ECMA_SIMPLE_VALUE_UNDEFINED)
               (ECMA_TYPE_SIMPLE ECMA_SIMPLE_VALUE_UNDEFINED))"
    by (simp add: dispatch_args2_def ecma_dispatch_argument_def ecma_make_simple_value_def)
  ultimately show ?thesis using m l by simp
qed

text \<open>
  Claim C7. For a routine identifier among the thirteen, the dispatcher makes one call, to
  the handler of that very routine, and invokes it; for every other identifier it reaches
  \<^verbatim>\<open>JERRY_UNREACHABLE\<close>, a fatal outcome, and returns no completion value.
\<close>

theorem dispatch_routes_to_one_handler:
  "(builtin_routine_id \<in> set ecma_builtin_object_routine_ids \<longrightarrow>
      arguments_number \<le> length arguments_list \<longrightarrow>
      (\<exists>call.
          ecma_builtin_object_dispatch_routine_call builtin_routine_id arguments_list
            arguments_number = Inr call
        \<and> call_routine_id call = builtin_routine_id
        \<and> ecma_builtin_object_dispatch_routine builtin_routine_id arguments_list
            arguments_number = ecma_builtin_object_routine_invoke call))
   \<and> (builtin_routine_id \<notin> set ecma_builtin_object_routine_ids \<longrightarrow>
        ecma_builtin_object_dispatch_routine_call builtin_routine_id arguments_list
          arguments_number = Inl JERRY_UNREACHABLE
      \<and> ecma_builtin_object_dispatch_routine builtin_routine_id arguments_list
          arguments_number = Inl JERRY_UNREACHABLE)"
proof (intro conjI impI)
  assume "builtin_routine_id \<in> set ecma_builtin_object_routine_ids"
     and "arguments_number \<le> length arguments_list"
  then obtain call where
    "ecma_builtin_object_dispatch_routine_call builtin_routine_id arguments_list
       arguments_number = Inr call"
    "call_routine_id call = builtin_routine_id"
    using dispatch_routine_call_in_range by blast
  then show "\<exists>call.
          ecma_builtin_object_dispatch_routine_call builtin_routine_id arguments_list
            arguments_number = Inr call
        \<and> call_routine_id call = builtin_routine_id
        \<and> ecma_builtin_object_dispatch_routine builtin_routine_id arguments_list
            arguments_number = ecma_builtin_object_routine_invoke call"
    by (simp add: ecma_builtin_object_dispatch_routine_def)
next
  assume out: "builtin_routine_id \<notin> set ecma_builtin_object_routine_ids"
  then show u: "ecma_builtin_object_dispatch_routine_call builtin_routine_id arguments_list
          arguments_number = Inl JERRY_UNREACHABLE"
    by (cases builtin_routine_id) (simp_all add: ecma_builtin_object_routine_ids_def)
  then show "ecma_builtin_object_dispatch_routine builtin_routine_id arguments_list
          arguments_number = Inl JERRY_UNREACHABLE"
    by (simp add: ecma_builtin_object_dispatch_routine_def)
qed

theorem dispatch_routes_to_one_handler_witness:
  "ECMA_MAGIC_STRING_SEAL \<in> set ecma_builtin_object_routine_ids
   \<and> (0::nat) \<le> length ([] :: ecma_value_t list)
   \<and> (\<exists>call. ecma_builtin_object_dispatch_routine_call ECMA_MAGIC_STRING_SEAL [] 0 = Inr call
         \<and> call_routine_id call = ECMA_MAGIC_STRING_SEAL)
   \<and> ECMA_MAGIC_STRING_LENGTH \<notin> set ecma_builtin_object_routine_ids
   \<and> ecma_builtin_object_dispatch_routine ECMA_MAGIC_STRING_LENGTH [] 0 = Inl JERRY_UNREACHABLE"
proof -
  have m: "ECMA_MAGIC_STRING_SEAL \<in> set ecma_builtin_object_routine_ids"
    and n: "ECMA_MAGIC_STRING_LENGTH \<notin> set ecma_builtin_object_routine_ids"
    by (simp_all add: ecma_builtin_object_routine_ids_def)
  show ?thesis
    using m n
      dispatch_routes_to_one_handler [of ECMA_MAGIC_STRING_SEAL 0 "[]"]
      dispatch_routes_to_one_handler [of ECMA_MAGIC_STRING_LENGTH 0 "[]"]
    by auto
qed

text \<open>
  Claim C9. Each of the thirteen handlers of the Object built-in, on every argument, ends in
  the "not implemented" fatal marker; none returns a completion value. So does every call
  the dispatcher can make.
\<close>

theorem object_routines_not_implemented:
  "ecma_builtin_object_object_get_prototype_of arg = Inl JERRY_UNIMPLEMENTED
   \<and> ecma_builtin_object_object_get_own_property_names arg = Inl JERRY_UNIMPLEMENTED
   \<and> ecma_builtin_object_object_seal arg = Inl JERRY_UNIMPLEMENTED
   \<and> ecma_builtin_object_object_freeze arg = Inl JERRY_UNIMPLEMENTED
   \<and> ecma_builtin_object_object_prevent_extensions arg = Inl JERRY_UNIMPLEMENTED
   \<and> ecma_builtin_object_object_is_sealed arg = Inl JERRY_UNIMPLEMENTED
   \<and> ecma_builtin_object_object_is_frozen arg = Inl JERRY_UNIMPLEMENTED
   \<and> ecma_builtin_object_object_is_extensible arg = Inl JERRY_UNIMPLEMENTED
   \<and> ecma_builtin_object_object_keys arg = Inl JERRY_UNIMPLEMENTED
   \<and> ecma_builtin_object_object_get_own_property_descriptor arg1 arg2 = Inl JERRY_UNIMPLEMENTED
   \<and> ecma_builtin_object_object_create arg1 arg2 = Inl JERRY_UNIMPLEMENTED
   \<and> ecma_builtin_object_object_define_properties arg1 arg2 = Inl JERRY_UNIMPLEMENTED
   \<and> ecma_builtin_object_object_define_property arg1 arg2 arg3 = Inl JERRY_UNIMPLEMENTED
   \<and> ecma_builtin_object_routine_invoke call = Inl JERRY_UNIMPLEMENTED"
  by (cases call)
     (simp_all add: ecma_builtin_object_object_get_prototype_of_def
        ecma_builtin_object_object_get_own_property_names_def
        ecma_builtin_object_object_seal_def ecma_builtin_object_object_freeze_def
        ecma_builtin_object_object_prevent_extensions_def
        ecma_builtin_object_object_is_sealed_def ecma_builtin_object_object_is_frozen_def
        ecma_builtin_object_object_is_extensible_def ecma_builtin_object_object_keys_def
        ecma_builtin_object_object_get_own_property_descriptor_def
        ecma_builtin_object_object_create_def
        ecma_builtin_object_object_define_properties_def
        ecma_builtin_object_object_define_property_def)

text \<open>
  Claim C10. For every routine identifier of the Object built-in, the number of arguments
  the dispatcher passes to the handler is the number
  \<open>ecma_builtin_object_get_routine_parameters_number\<close> returns for it: 3 for defineProperty,
  2 for getOwnPropertyDescriptor, create and defineProperties, 1 for the nine others.
\<close>

theorem dispatch_extracts_parameters_number:
  assumes "builtin_routine_id \<in> set ecma_builtin_object_routine_ids"
      and "arguments_number \<le> length arguments_list"
  shows "\<exists>call k.
            ecma_builtin_object_dispatch_routine_call builtin_routine_id arguments_list
              arguments_number = Inr call
          \<and> ecma_builtin_object_get_routine_parameters_number builtin_routine_id = Inr k
          \<and> length (call_arguments call) = k
          \<and> k = (if builtin_routine_id = ECMA_MAGIC_STRING_DEFINE_PROPERTY_UL then 3
                 else if builtin_routine_id = ECMA_MAGIC_STRING_GET_OWN_PROPERTY_DESCRIPTOR_UL
                       \<or> builtin_routine_id = ECMA_MAGIC_STRING_CREATE
                       \<or> builtin_routine_id = ECMA_MAGIC_STRING_DEFINE_PROPERTIES_UL then 2
                 else 1)"
  using assms(1)
  by (cases rule: routine_id_cases)
     (simp_all add: dispatch_args_in_range [OF assms(2)])

theorem dispatch_extracts_parameters_number_witness:
  "ECMA_MAGIC_STRING_DEFINE_PROPERTY_UL \<in> set ecma_builtin_object_routine_ids
   \<and> (0::nat) \<le> length ([] :: ecma_value_t list)
   \<and> (\<exists>call. ecma_builtin_object_dispatch_routine_call ECMA_MAGIC_STRING_DEFINE_PROPERTY_UL
                [] 0 = Inr call
         \<and> ecma_builtin_object_get_routine_parameters_number
                ECMA_MAGIC_STRING_DEFINE_PROPERTY_UL = Inr 3
         \<and> length (call_arguments call) = 3)"
proof -
  have m: "ECMA_MAGIC_STRING_DEFINE_PROPERTY_UL \<in> set ecma_builtin_object_routine_ids"
    by (simp add: ecma_builtin_object_routine_ids_def)
  have l: "(0::nat) \<le> length ([] :: ecma_value_t list)" by simp
  show ?thesis
    using m dispatch_extracts_parameters_number [OF m l] by auto
qed

section \<open>The search of the table\<close>

lemma bin_search_loop_stop:
  "\<not> (0 \<le> mn \<and> mn \<le> mx \<and> mx < int (length ids)) \<Longrightarrow>
   bin_search_loop val ids key mn mx = -1"
  by (subst bin_search_loop.simps) auto

lemma bin_search_loop_step:
  "0 \<le> mn \<and> mn \<le> mx \<and> mx < int (length ids) \<Longrightarrow>
   bin_search_loop val ids key mn mx =
     (if val (ids ! nat ((mn + mx) div 2)) = val key then (mn + mx) div 2
      else if val (ids ! nat ((mn + mx) div 2)) > val key
           then bin_search_loop val ids key mn ((mn + mx) div 2 - 1)
           else bin_search_loop val ids key ((mn + mx) div 2 + 1) mx)"
  by (subst bin_search_loop.simps) (simp add: Let_def)

lemma bin_search_loop_result:
  "bin_search_loop val ids key mn mx = -1
   \<or> (0 \<le> bin_search_loop val ids key mn mx
      \<and> mn \<le> bin_search_loop val ids key mn mx
      \<and> bin_search_loop val ids key mn mx \<le> mx
      \<and> bin_search_loop val ids key mn mx < int (length ids)
      \<and> val (ids ! nat (bin_search_loop val ids key mn mx)) = val key)"
proof (induction val ids key mn mx rule: bin_search_loop.induct)
  case (1 val ids key mn mx)
  let ?mid = "(mn + mx) div 2"
  show ?case
  proof (cases "0 \<le> mn \<and> mn \<le> mx \<and> mx < int (length ids)")
    case False
    then show ?thesis by (simp add: bin_search_loop_stop)
  next
    case True
    have mid: "mn \<le> ?mid" "?mid \<le> mx" using True by auto
    consider (eq) "val (ids ! nat ?mid) = val key"
      | (gt) "val (ids ! nat ?mid) \<noteq> val key" "val (ids ! nat ?mid) > val key"
      | (lt) "val (ids ! nat ?mid) \<noteq> val key" "\<not> val (ids ! nat ?mid) > val key"
      by blast
    then show ?thesis
    proof cases
      case eq
      have "bin_search_loop val ids key mn mx = ?mid"
        using eq by (simp add: bin_search_loop_step [OF True])
      then show ?thesis using True mid eq by simp
    next
      case gt
      have r: "bin_search_loop val ids key mn mx = bin_search_loop val ids key mn (?mid - 1)"
        using gt by (simp add: bin_search_loop_step [OF True])
      from "1.IH"(1) [OF True refl gt(1) gt(2)]
      show ?thesis unfolding r using mid by auto
    next
      case lt
      have r: "bin_search_loop val ids key mn mx = bin_search_loop val ids key (?mid + 1) mx"
        using lt by (simp add: bin_search_loop_step [OF True])
      from "1.IH"(2) [OF True refl lt(1) lt(2)]
      show ?thesis unfolding r using mid by auto
    qed
  qed
qed

lemma bin_search_loop_finds:
  "sorted_wrt (<) (map val ids) \<Longrightarrow> k < length ids \<Longrightarrow> key = ids ! k \<Longrightarrow>
   0 \<le> mn \<Longrightarrow> mn \<le> int k \<Longrightarrow> int k \<le> mx \<Longrightarrow> mx < int (length ids) \<Longrightarrow>
   bin_search_loop val ids key mn mx = int k"
proof (induction val ids key mn mx rule: bin_search_loop.induct)
  case (1 val ids key mn mx)
  let ?mid = "(mn + mx) div 2"
  have T: "0 \<le> mn \<and> mn \<le> mx \<and> mx < int (length ids)" using "1.prems" by auto
  have mid: "mn \<le> ?mid" "?mid \<le> mx" "nat ?mid < length ids" using T by auto
  have mono: "i < j \<Longrightarrow> j < length ids \<Longrightarrow> val (ids ! i) < val (ids ! j)" for i j
    using sorted_wrt_nth_less [OF "1.prems"(1), of i j] by simp
  have key: "val key = val (ids ! k)" using "1.prems"(3) by simp
  have k: "k < length ids" using "1.prems"(2) .
  consider (eq) "val (ids ! nat ?mid) = val key"
    | (gt) "val (ids ! nat ?mid) \<noteq> val key" "val (ids ! nat ?mid) > val key"
    | (lt) "val (ids ! nat ?mid) \<noteq> val key" "\<not> val (ids ! nat ?mid) > val key"
    by blast
  then show ?case
  proof cases
    case eq
    have "nat ?mid = k"
    proof (rule ccontr)
      assume "nat ?mid \<noteq> k"
      then consider "nat ?mid < k" | "k < nat ?mid" by linarith
      then show False
        using mono [of "nat ?mid" k] mono [of k "nat ?mid"] eq key k mid(3)
        by cases auto
    qed
    moreover have "0 \<le> ?mid" using T by linarith
    ultimately have "?mid = int k" by linarith
    then show ?thesis using eq by (simp add: bin_search_loop_step [OF T])
  next
    case gt
    have "k < nat ?mid"
    proof (rule ccontr)
      assume "\<not> k < nat ?mid"
      then consider "nat ?mid < k" | "nat ?mid = k" by linarith
      then show False using mono [of "nat ?mid" k] gt key k by cases auto
    qed
    then have "int k \<le> ?mid - 1" by linarith
    from "1.IH"(1) [OF T refl gt(1) gt(2) "1.prems"(1,2,3,4,5) this] mid T
    have "bin_search_loop val ids key mn (?mid - 1) = int k" by linarith
    then show ?thesis using gt by (simp add: bin_search_loop_step [OF T])
  next
    case lt
    have "nat ?mid < k"
    proof (rule ccontr)
      assume "\<not> nat ?mid < k"
      then consider "k < nat ?mid" | "nat ?mid = k" by linarith
      then show False using mono [of k "nat ?mid"] lt key mid(3) by cases auto
    qed
    then have "?mid + 1 \<le> int k" by linarith
    moreover have "0 \<le> ?mid + 1" using T by linarith
    ultimately
    have "bin_search_loop val ids key (?mid + 1) mx = int k"
      using "1.IH"(2) [OF T refl lt(1) lt(2) "1.prems"(1,2,3)] "1.prems"(6,7) by blast
    then show ?thesis using lt by (simp add: bin_search_loop_step [OF T])
  qed
qed

lemma bin_search_loop_absent:
  assumes "\<forall>t \<in> set ids. val t \<noteq> val key"
  shows "bin_search_loop val ids key mn mx = -1"
proof (rule ccontr)
  assume n: "bin_search_loop val ids key mn mx \<noteq> -1"
  let ?r = "bin_search_loop val ids key mn mx"
  from bin_search_loop_result [of val ids key mn mx] n
  have "0 \<le> ?r" "?r < int (length ids)" "val (ids ! nat ?r) = val key" by auto
  moreover from this have "ids ! nat ?r \<in> set ids" by (intro nth_mem) linarith
  ultimately show False using assms by blast
qed

section \<open>The property store and the steps of the instantiation\<close>

lemma find_named_set_internal [simp]:
  "find (is_named_property n) (set_internal_value i v ps) = find (is_named_property n) ps"
  by (induction i v ps rule: set_internal_value.induct) auto

lemma find_internal_set_internal [simp]:
  "find (is_internal_property i) (set_internal_value i v ps) =
     map_option (\<lambda>p. ECMA_PROPERTY_INTERNAL i v) (find (is_internal_property i) ps)"
  by (induction i v ps rule: set_internal_value.induct) auto

lemma find_internal_Some:
  "find (is_internal_property i) ps = Some q \<Longrightarrow> \<exists>v. q = ECMA_PROPERTY_INTERNAL i v"
  by (induction ps) (auto split: if_splits elim: is_internal_property.elims)

lemma ecma_get_object_valid [simp]:
  "p < length (heap s) \<Longrightarrow> ecma_get_object s p = Inr (heap s ! p)"
  by (simp add: ecma_get_object_def)

lemma heap_ecma_set_object [simp]:
  "heap (ecma_set_object s p obj) = (heap s)[p := obj]"
  "ecma_object_object_p (ecma_set_object s p obj) = ecma_object_object_p s"
  by (simp_all add: ecma_set_object_def)

lemma instantiate_routine_eq:
  "instantiate_routine s rid =
     Inr (ECMA_TYPE_OBJECT (length (heap s)), ECMA_PROPERTY_WRITABLE,
          ECMA_PROPERTY_NOT_ENUMERABLE, ECMA_PROPERTY_CONFIGURABLE,
          s\<lparr>heap := heap s @ [routine_function_object rid 2]\<rparr>)"
  by (simp add: instantiate_routine_def ecma_builtin_make_function_object_for_routine_def
      ecma_create_object_def ecma_make_object_value_def ecma_ref_object_def
      ecma_get_object_def ecma_set_object_def routine_function_object_def)

lemma attach_property_object:
  assumes "p < length (heap s)" and "fp < length (heap s)" and "fp \<noteq> p"
      and "find (is_named_property name) (properties (heap s ! p)) = None"
      and "refs (heap s ! fp) \<noteq> 0"
      and "gc_generation (heap s ! fp) \<le> gc_generation (heap s ! p)"
  shows "ecma_builtin_object_attach_property s p name (ECMA_TYPE_OBJECT fp) w e c =
     Inr (Some (ECMA_PROPERTY_NAMEDDATA name (ECMA_TYPE_OBJECT fp) w e c),
          s\<lparr>heap := (heap s)
             [p := (heap s ! p)\<lparr>properties :=
                     ECMA_PROPERTY_NAMEDDATA name (ECMA_TYPE_OBJECT fp) w e c
                       # properties (heap s ! p),
                   gc_may_ref_younger_objects := True\<rparr>,
              fp := (heap s ! fp)\<lparr>refs := refs (heap s ! fp) - 1\<rparr>]\<rparr>)"
  using assms
  by (simp add: ecma_builtin_object_attach_property_def ecma_create_named_data_property_def
      ecma_set_named_data_property_value_def ecma_deref_object_def
      ecma_find_named_property_def ecma_set_object_def)

lemma attach_property_number:
  assumes "p < length (heap s)"
      and "find (is_named_property name) (properties (heap s ! p)) = None"
  shows "ecma_builtin_object_attach_property s p name (ECMA_TYPE_NUMBER x) w e c =
     Inr (Some (ECMA_PROPERTY_NAMEDDATA name (ECMA_TYPE_NUMBER x) w e c),
          s\<lparr>heap := (heap s)
             [p := (heap s ! p)\<lparr>properties :=
                     ECMA_PROPERTY_NAMEDDATA name (ECMA_TYPE_NUMBER x) w e c
                       # properties (heap s ! p)\<rparr>]\<rparr>)"
  using assms
  by (simp add: ecma_builtin_object_attach_property_def ecma_create_named_data_property_def
      ecma_set_named_data_property_value_def
      ecma_find_named_property_def ecma_set_object_def)

lemma mask_bit_test: "(m AND 2 ^ i = 0) = (\<not> bit m i)" for m :: "32 word"
  by (simp add: and_exp_eq_0_iff_not_bit)

lemma instantiate_value_routine:
  "rid \<in> set ecma_builtin_object_routine_ids \<Longrightarrow>
   ecma_builtin_object_instantiate_value s rid = instantiate_routine s rid"
  by (erule routine_id_cases) simp_all

lemma instantiate_at_clear:
  assumes "p < length (heap s)"
      and "find (is_internal_property MASK) (properties (heap s ! p)) =
             Some (ECMA_PROPERTY_INTERNAL MASK m)"
      and "\<not> bit m i"
  shows "ecma_builtin_object_instantiate_at s p name rid i = Inr (None, s)"
  using assms
  by (simp add: ecma_builtin_object_instantiate_at_def ecma_get_internal_property_def
      mask_bit_test Let_def)

lemma instantiate_at_routine:
  assumes "p < length (heap s)"
      and "find (is_internal_property MASK) (properties (heap s ! p)) =
             Some (ECMA_PROPERTY_INTERNAL MASK m)"
      and "find (is_named_property name) (properties (heap s ! p)) = None"
      and "bit m i"
      and "rid \<in> set ecma_builtin_object_routine_ids"
  shows "ecma_builtin_object_instantiate_at s p name rid i =
     Inr (Some (ECMA_PROPERTY_NAMEDDATA name (ECMA_TYPE_OBJECT (length (heap s)))
                  ECMA_PROPERTY_WRITABLE ECMA_PROPERTY_NOT_ENUMERABLE ECMA_PROPERTY_CONFIGURABLE),
          s\<lparr>heap := (heap s)
             [p := (heap s ! p)\<lparr>properties :=
                     ECMA_PROPERTY_NAMEDDATA name (ECMA_TYPE_OBJECT (length (heap s)))
                       ECMA_PROPERTY_WRITABLE ECMA_PROPERTY_NOT_ENUMERABLE
                       ECMA_PROPERTY_CONFIGURABLE
                       # set_internal_value MASK (m AND NOT (push_bit i 1))
                           (properties (heap s ! p)),
                   gc_may_ref_younger_objects := True\<rparr>]
             @ [routine_function_object rid 1]\<rparr>)"
  using assms(1,2,3,4)
  by (simp add: ecma_builtin_object_instantiate_at_def ecma_get_internal_property_def
      mask_bit_test Let_def ecma_set_internal_property_value_def
      instantiate_value_routine [OF assms(5)] instantiate_routine_eq
      attach_property_object nth_append routine_function_object_def list_update_append
      ecma_set_object_def)

lemma instantiate_at_length:
  assumes "p < length (heap s)"
      and "find (is_internal_property MASK) (properties (heap s ! p)) =
             Some (ECMA_PROPERTY_INTERNAL MASK m)"
      and "find (is_named_property name) (properties (heap s ! p)) = None"
      and "bit m i"
  shows "ecma_builtin_object_instantiate_at s p name ECMA_MAGIC_STRING_LENGTH i =
     Inr (Some (ECMA_PROPERTY_NAMEDDATA name (ECMA_TYPE_NUMBER 1)
                  ECMA_PROPERTY_NOT_WRITABLE ECMA_PROPERTY_NOT_ENUMERABLE
                  ECMA_PROPERTY_NOT_CONFIGURABLE),
          s\<lparr>heap := (heap s)
             [p := (heap s ! p)\<lparr>properties :=
                     ECMA_PROPERTY_NAMEDDATA name (ECMA_TYPE_NUMBER 1)
                       ECMA_PROPERTY_NOT_WRITABLE ECMA_PROPERTY_NOT_ENUMERABLE
                       ECMA_PROPERTY_NOT_CONFIGURABLE
                       # set_internal_value MASK (m AND NOT (push_bit i 1))
                           (properties (heap s ! p))\<rparr>]\<rparr>)"
  using assms
  by (simp add: ecma_builtin_object_instantiate_at_def ecma_get_internal_property_def
      mask_bit_test Let_def ecma_set_internal_property_value_def
      ecma_make_number_value_def ECMA_NUMBER_ONE_def
      attach_property_number ecma_set_object_def)

lemma instantiate_at_prototype:
  assumes "p < length (heap s)"
      and "find (is_internal_property MASK) (properties (heap s ! p)) =
             Some (ECMA_PROPERTY_INTERNAL MASK m)"
      and "bit m i"
  shows "ecma_builtin_object_instantiate_at s p name ECMA_MAGIC_STRING_PROTOTYPE i =
           Inl JERRY_UNIMPLEMENTED"
  using assms
  by (simp add: ecma_builtin_object_instantiate_at_def ecma_get_internal_property_def
      mask_bit_test Let_def ecma_set_internal_property_value_def)

lemma length_property_names [simp]: "length ecma_builtin_object_property_names = 15"
  by (simp add: ecma_builtin_object_property_names_def)

lemma property_number_15: "ecma_builtin_object_property_number = 15"
  by (simp add: ecma_builtin_object_property_number_def)

lemma table_search_found:
  assumes "ecma_magic_strings_sorted E" and "i < 15"
  shows "ecma_builtin_bin_search_for_magic_string_id_in_array E
           ecma_builtin_object_property_names ecma_builtin_object_property_number
           (ecma_builtin_object_property_names ! i) = int i"
  unfolding ecma_builtin_bin_search_for_magic_string_id_in_array_def
  using assms
  by (intro bin_search_loop_finds [where k = i])
     (simp_all add: ecma_magic_strings_sorted_def property_number_15)

lemma table_search_absent:
  assumes "inj (magic_string_id_value E)"
      and "key \<notin> set ecma_builtin_object_property_names"
  shows "ecma_builtin_bin_search_for_magic_string_id_in_array E
           ecma_builtin_object_property_names ecma_builtin_object_property_number key = -1"
  unfolding ecma_builtin_bin_search_for_magic_string_id_in_array_def
proof (rule bin_search_loop_absent, rule ballI)
  fix t assume "t \<in> set ecma_builtin_object_property_names"
  then have "t \<noteq> key" using assms(2) by blast
  then show "magic_string_id_value E t \<noteq> magic_string_id_value E key"
    using assms(1) by (auto dest: injD)
qed

lemma table_search_result:
  "ecma_builtin_bin_search_for_magic_string_id_in_array E
     ecma_builtin_object_property_names ecma_builtin_object_property_number key = r \<Longrightarrow>
   r = -1 \<or> (0 \<le> r \<and> r < 15
     \<and> magic_string_id_value E (ecma_builtin_object_property_names ! nat r) =
         magic_string_id_value E key)"
  unfolding ecma_builtin_bin_search_for_magic_string_id_in_array_def
  using bin_search_loop_result [of "magic_string_id_value E" ecma_builtin_object_property_names
      key 0 "int ecma_builtin_object_property_number - 1"]
  by (auto simp: property_number_15)

lemma try_to_instantiate_found:
  assumes "ecma_magic_strings_sorted E"
      and "ecma_object_object_p s = Some p" and "p < length (heap s)"
      and "find (is_named_property (ECMA_STRING_MAGIC (ecma_builtin_object_property_names ! i)))
             (properties (heap s ! p)) = None"
      and "i < 15"
  shows "ecma_builtin_object_try_to_instantiate_property E s p
           (ECMA_STRING_MAGIC (ecma_builtin_object_property_names ! i)) =
         ecma_builtin_object_instantiate_at s p
           (ECMA_STRING_MAGIC (ecma_builtin_object_property_names ! i))
           (ecma_builtin_object_property_names ! i) i"
  using assms(2-5)
  by (simp add: ecma_builtin_object_try_to_instantiate_property_def
      ecma_builtin_is_object_object_def ecma_find_named_property_def
      table_search_found [OF assms(1)] Let_def)

lemma names_nth:
  "ecma_builtin_object_property_names ! 0 = ECMA_MAGIC_STRING_PROTOTYPE"
  "ecma_builtin_object_property_names ! 1 = ECMA_MAGIC_STRING_LENGTH"
  "ecma_builtin_object_property_names ! 2 = ECMA_MAGIC_STRING_GET_PROTOTYPE_OF_UL"
  "ecma_builtin_object_property_names ! 3 = ECMA_MAGIC_STRING_GET_OWN_PROPERTY_DESCRIPTOR_UL"
  "ecma_builtin_object_property_names ! 4 = ECMA_MAGIC_STRING_GET_OWN_PROPERTY_NAMES_UL"
  "ecma_builtin_object_property_names ! 5 = ECMA_MAGIC_STRING_CREATE"
  "ecma_builtin_object_property_names ! 6 = ECMA_MAGIC_STRING_DEFINE_PROPERTY_UL"
  "ecma_builtin_object_property_names ! 7 = ECMA_MAGIC_STRING_DEFINE_PROPERTIES_UL"
  "ecma_builtin_object_property_names ! 8 = ECMA_MAGIC_STRING_SEAL"
  "ecma_builtin_object_property_names ! 9 = ECMA_MAGIC_STRING_FREEZE"
  "ecma_builtin_object_property_names ! 10 = ECMA_MAGIC_STRING_PREVENT_EXTENSIONS_UL"
  "ecma_builtin_object_property_names ! 11 = ECMA_MAGIC_STRING_IS_SEALED_UL"
  "ecma_builtin_object_property_names ! 12 = ECMA_MAGIC_STRING_IS_FROZEN_UL"
  "ecma_builtin_object_property_names ! 13 = ECMA_MAGIC_STRING_IS_EXTENSIBLE"
  "ecma_builtin_object_property_names ! 14 = ECMA_MAGIC_STRING_KEYS"
  by (simp_all add: ecma_builtin_object_property_names_def)

lemma names_distinct: "distinct ecma_builtin_object_property_names"
  by (simp add: ecma_builtin_object_property_names_def)

lemma names_nth_kind:
  assumes "i < 15"
  shows "ecma_builtin_object_property_names ! i = ECMA_MAGIC_STRING_PROTOTYPE \<and> i = 0
       \<or> ecma_builtin_object_property_names ! i = ECMA_MAGIC_STRING_LENGTH \<and> i = 1
       \<or> ecma_builtin_object_property_names ! i \<in> set ecma_builtin_object_routine_ids \<and> 2 \<le> i"
proof (cases i)
  case 0
  then show ?thesis by (simp add: ecma_builtin_object_property_names_def)
next
  case (Suc j)
  show ?thesis
  proof (cases j)
    case 0
    with Suc show ?thesis by (simp add: ecma_builtin_object_property_names_def)
  next
    case (Suc k)
    let ?rest = "drop 2 ecma_builtin_object_property_names"
    have k: "k < length ?rest" using assms \<open>i = Suc j\<close> Suc by simp
    have "ecma_builtin_object_property_names ! i = ?rest ! k"
      using \<open>i = Suc j\<close> Suc by simp
    with nth_mem [OF k] have "ecma_builtin_object_property_names ! i \<in> set ?rest" by simp
    moreover have "set ?rest = set ecma_builtin_object_routine_ids"
      by (auto simp: ecma_builtin_object_property_names_def
          ecma_builtin_object_routine_ids_def)
    ultimately show ?thesis using \<open>i = Suc j\<close> Suc by simp
  qed
qed

lemma routine_id_index:
  assumes "rid \<in> set ecma_builtin_object_routine_ids"
  obtains i where "i < 15" "2 \<le> i" "ecma_builtin_object_property_names ! i = rid"
proof -
  from assms have "rid \<in> set ecma_builtin_object_property_names"
    by (auto simp: ecma_builtin_object_routine_ids_def ecma_builtin_object_property_names_def)
  then obtain i where i: "i < 15" "ecma_builtin_object_property_names ! i = rid"
    by (auto simp: in_set_conv_nth)
  with assms names_nth_kind [OF i(1)] have "2 \<le> i"
    by (auto simp: ecma_builtin_object_routine_ids_def)
  with i that show thesis by blast
qed

lemma bit_clear_exp_iff:
  "bit (m AND NOT (2 ^ i)) j = (bit m j \<and> j \<noteq> i)" for m :: "32 word"
  by (auto simp: bit_simps dest: bit_imp_le_length)

lemma bit_clear_iff:
  "bit (m AND NOT (push_bit i 1)) j = (bit m j \<and> j \<noteq> i)" for m :: "32 word"
  by (simp add: bit_clear_exp_iff)

lemma bit_initial_mask: "bit ecma_builtin_object_initial_mask j = (j < 15)"
proof -
  have "ecma_builtin_object_initial_mask = mask 15"
    by (simp add: ecma_builtin_object_initial_mask_def property_number_15 mask_eq_exp_minus_1)
  show ?thesis unfolding \<open>ecma_builtin_object_initial_mask = mask 15\<close>
    by (auto simp: bit_mask_iff)
qed

lemma init_object_object:
  assumes "ecma_object_object_p s0 = None"
  shows "ecma_builtin_init_object_object E s0 =
     Inr (s0\<lparr>heap := heap s0 @
            [\<lparr>object_type = ECMA_OBJECT_TYPE_FUNCTION, is_extensible = True, is_builtin = True,
              builtin_routine = None, prototype_object_p = None,
              properties =
                [ECMA_PROPERTY_INTERNAL MASK ecma_builtin_object_initial_mask,
                 ECMA_PROPERTY_INTERNAL ECMA_INTERNAL_PROPERTY_BUILT_IN_ID
                   (builtin_id_value E ECMA_BUILTIN_ID_OBJECT),
                 ECMA_PROPERTY_INTERNAL ECMA_INTERNAL_PROPERTY_CLASS
                   (object_class_value E ECMA_OBJECT_CLASS_OBJECT)],
              refs = 1, gc_generation = 0, gc_may_ref_younger_objects = False\<rparr>],
          ecma_object_object_p := Some (length (heap s0))\<rparr>)"
  using assms
  by (simp add: ecma_builtin_init_object_object_def ecma_create_object_def
      ecma_create_internal_property_def ecma_set_internal_property_value_def
      ecma_set_object_is_builtin_def ecma_get_object_def ecma_set_object_def)

lemma init_object_object_inv:
  assumes "ecma_object_object_p s0 = None"
  obtains s where "ecma_builtin_init_object_object E s0 = Inr s"
    and "object_object_inv s (length (heap s0)) ecma_builtin_object_initial_mask {}"
    and "length (heap s) = Suc (length (heap s0))"
  using assms
  by (simp add: init_object_object object_object_inv_def)

lemma inv_step:
  assumes E: "ecma_magic_strings_sorted E"
      and inv: "object_object_inv s p m D"
      and i: "i < 15" "i \<noteq> 0"
      and new: "ecma_builtin_object_property_names ! i \<notin> D"
      and b: "bit m i"
  shows "\<exists>prop s'.
           ecma_builtin_object_try_to_instantiate_property E s p
             (ECMA_STRING_MAGIC (ecma_builtin_object_property_names ! i)) = Inr (Some prop, s')
         \<and> object_object_inv s' p (m AND NOT (push_bit i 1))
             (insert (ecma_builtin_object_property_names ! i) D)"
proof -
  let ?rid = "ecma_builtin_object_property_names ! i"
  from inv have G: "ecma_object_object_p s = Some p" and V: "p < length (heap s)"
    and M: "find (is_internal_property MASK) (properties (heap s ! p)) =
              Some (ECMA_PROPERTY_INTERNAL MASK m)"
    and S: "\<And>n. find (is_named_property n) (properties (heap s ! p)) \<noteq> None \<Longrightarrow>
              n \<in> ECMA_STRING_MAGIC ` D"
    by (auto simp: object_object_inv_def)
  have N: "find (is_named_property (ECMA_STRING_MAGIC ?rid)) (properties (heap s ! p)) = None"
  proof (rule ccontr)
    assume "find (is_named_property (ECMA_STRING_MAGIC ?rid)) (properties (heap s ! p)) \<noteq> None"
    from S [OF this] have "?rid \<in> D" by auto
    with new show False by simp
  qed
  have t: "ecma_builtin_object_try_to_instantiate_property E s p (ECMA_STRING_MAGIC ?rid) =
           ecma_builtin_object_instantiate_at s p (ECMA_STRING_MAGIC ?rid) ?rid i"
    by (rule try_to_instantiate_found [OF E G V N i(1)])
  from names_nth_kind [OF i(1)] i(2)
  consider (len) "?rid = ECMA_MAGIC_STRING_LENGTH"
    | (rou) "?rid \<in> set ecma_builtin_object_routine_ids"
    by auto
  then show ?thesis
  proof cases
    case len
    show ?thesis
      unfolding t
      using instantiate_at_length [OF V M N b] G V M S
      by (auto simp: len object_object_inv_def)
  next
    case rou
    show ?thesis
      unfolding t
      using instantiate_at_routine [OF V M N b rou] G V M S
      by (auto simp: object_object_inv_def nth_append)
  qed
qed

lemma instantiate_all_inv:
  assumes E: "ecma_magic_strings_sorted E"
  shows "object_object_inv s p m D \<Longrightarrow> distinct ids \<Longrightarrow>
         set ids \<subseteq> set ecma_builtin_object_property_names - {ECMA_MAGIC_STRING_PROTOTYPE} \<Longrightarrow>
         set ids \<inter> D = {} \<Longrightarrow>
         (\<And>j. bit m j = (j < 15 \<and> ecma_builtin_object_property_names ! j \<notin> D)) \<Longrightarrow>
         \<exists>s' m'. instantiate_all E s p ids = Inr (Some s')
           \<and> object_object_inv s' p m' (D \<union> set ids)
           \<and> (\<forall>j. bit m' j = (j < 15 \<and> ecma_builtin_object_property_names ! j \<notin> D \<union> set ids))"
proof (induction ids arbitrary: s m D)
  case Nil
  then show ?case by auto
next
  case (Cons x ids)
  from Cons.prems(3) obtain i where i: "i < 15" "ecma_builtin_object_property_names ! i = x"
    by (auto simp: in_set_conv_nth)
  have i0: "i \<noteq> 0" using i Cons.prems(3) by (cases "i = 0") (auto simp: names_nth)
  have xD: "x \<notin> D" using Cons.prems(4) by auto
  have b: "bit m i" using Cons.prems(5) [of i] i xD by simp
  from inv_step [OF E Cons.prems(1) i(1) i0 _ b] xD i(2)
  obtain pr s1 where
    s1: "ecma_builtin_object_try_to_instantiate_property E s p (ECMA_STRING_MAGIC x) =
           Inr (Some pr, s1)"
    and inv1: "object_object_inv s1 p (m AND NOT (push_bit i 1)) (insert x D)"
    by auto
  have bits: "bit (m AND NOT (push_bit i 1)) j =
                (j < 15 \<and> ecma_builtin_object_property_names ! j \<notin> insert x D)" for j
  proof -
    have "j < 15 \<Longrightarrow> (ecma_builtin_object_property_names ! j = x) = (j = i)"
      using i names_distinct by (auto simp: nth_eq_iff_index_eq)
    then show ?thesis unfolding bit_clear_iff Cons.prems(5) by auto
  qed
  from Cons.IH [OF inv1 _ _ _ bits] Cons.prems(2,3,4)
  obtain s' m' where
    "instantiate_all E s1 p ids = Inr (Some s')"
    "object_object_inv s' p m' (insert x D \<union> set ids)"
    "\<forall>j. bit m' j = (j < 15 \<and> ecma_builtin_object_property_names ! j \<notin> insert x D \<union> set ids)"
    by auto
  then show ?case using s1 by auto
qed

section \<open>Properties of the lazy instantiation\<close>

lemma mask_bits_set_card: "mask_bits_set m = card {j. bit m j}"
proof -
  have "{i. i < 32 \<and> bit m ([0..<32] ! i)} = {j. j < 32 \<and> bit m j}"
    by auto
  then have "mask_bits_set m = card {j. j < 32 \<and> bit m j}"
    by (simp add: mask_bits_set_def length_filter_conv_card)
  moreover have "{j. j < 32 \<and> bit m j} = {j. bit m j}"
    by (auto dest: bit_imp_le_length)
  ultimately show ?thesis by simp
qed

lemma mask_bits_set_initial: "mask_bits_set ecma_builtin_object_initial_mask = 15"
  by (simp add: mask_bits_set_card bit_initial_mask)

lemma mask_bits_set_initial_clear:
  assumes "i < 15"
  shows "mask_bits_set (ecma_builtin_object_initial_mask AND NOT (push_bit i 1)) = 14"
proof -
  have "{j. j < 15 \<and> j \<noteq> i} = {..<15} - {i}" by auto
  then show ?thesis
    using assms by (simp add: mask_bits_set_card bit_clear_exp_iff bit_initial_mask)
qed

lemma example_inj: "inj example_magic_string_id_value"
proof (rule injI)
  fix x y assume "example_magic_string_id_value x = example_magic_string_id_value y"
  then show "x = y" by (cases x; cases y) simp_all
qed

lemma example_sorted: "ecma_magic_strings_sorted example_enum_values"
  by (simp add: ecma_magic_strings_sorted_def example_enum_values_def example_inj
      ecma_builtin_object_property_names_def)

lemma init_empty_state:
  "ecma_builtin_init_object_object E ecma_empty_state =
     Inr \<lparr>heap =
            [\<lparr>object_type = ECMA_OBJECT_TYPE_FUNCTION, is_extensible = True, is_builtin = True,
              builtin_routine = None, prototype_object_p = None,
              properties =
                [ECMA_PROPERTY_INTERNAL MASK ecma_builtin_object_initial_mask,
                 ECMA_PROPERTY_INTERNAL ECMA_INTERNAL_PROPERTY_BUILT_IN_ID
                   (builtin_id_value E ECMA_BUILTIN_ID_OBJECT),
                 ECMA_PROPERTY_INTERNAL ECMA_INTERNAL_PROPERTY_CLASS
                   (object_class_value E ECMA_OBJECT_CLASS_OBJECT)],
              refs = 1, gc_generation = 0, gc_may_ref_younger_objects = False\<rparr>],
          ecma_object_object_p = Some 0\<rparr>"
  by (simp add: init_object_object ecma_empty_state_def)

lemma example_fresh_state_init:
  "ecma_builtin_init_object_object example_enum_values ecma_empty_state =
     Inr example_fresh_state"
  by (simp add: example_fresh_state_def init_empty_state)

lemma example_fresh_state_inv:
  "object_object_inv example_fresh_state 0 ecma_builtin_object_initial_mask {}"
  by (simp add: example_fresh_state_def init_empty_state object_object_inv_def)

text \<open>
  Claim C6. Where the entry assertions of the function hold, a request for a name that is
  not a magic string at all, or whose identifier is not in the table of the Object
  object (\<^verbatim>\<open>"toString"\<close>, say), returns \<^verbatim>\<open>NULL\<close> and leaves the state as it was: the
  mask and the list of properties are unchanged.
\<close>

theorem absent_name_not_found:
  assumes "inj (magic_string_id_value E)"
      and "ecma_builtin_is_object_object s obj_p"
      and "ecma_find_named_property s obj_p prop_name_p = Inr None"
      and "\<forall>magic_id. ecma_is_string_magic prop_name_p = Some magic_id \<longrightarrow>
             magic_id \<notin> set ecma_builtin_object_property_names"
  shows "ecma_builtin_object_try_to_instantiate_property E s obj_p prop_name_p = Inr (None, s)"
proof (cases "ecma_is_string_magic prop_name_p")
  case None
  then show ?thesis
    using assms(2,3) by (simp add: ecma_builtin_object_try_to_instantiate_property_def)
next
  case (Some magic_id)
  with assms(4) have "magic_id \<notin> set ecma_builtin_object_property_names" by simp
  from table_search_absent [OF assms(1) this] Some assms(2,3)
  show ?thesis by (simp add: ecma_builtin_object_try_to_instantiate_property_def)
qed

theorem absent_name_not_found_witness:
  "inj (magic_string_id_value example_enum_values)
   \<and> ecma_builtin_is_object_object example_fresh_state 0
   \<and> ecma_find_named_property example_fresh_state 0
        (ECMA_STRING_MAGIC ECMA_MAGIC_STRING_TO_STRING_UL) = Inr None
   \<and> ecma_builtin_object_try_to_instantiate_property example_enum_values example_fresh_state 0
        (ECMA_STRING_MAGIC ECMA_MAGIC_STRING_TO_STRING_UL) = Inr (None, example_fresh_state)
   \<and> ecma_find_named_property example_fresh_state 0 (ECMA_STRING_HEAP ''valueOf'') = Inr None
   \<and> ecma_builtin_object_try_to_instantiate_property example_enum_values example_fresh_state 0
        (ECMA_STRING_HEAP ''valueOf'') = Inr (None, example_fresh_state)"
proof -
  have i: "inj (magic_string_id_value example_enum_values)"
    by (simp add: example_enum_values_def example_inj)
  have o: "ecma_builtin_is_object_object example_fresh_state 0"
    by (simp add: ecma_builtin_is_object_object_def example_fresh_state_def init_empty_state)
  have f: "ecma_find_named_property example_fresh_state 0 n = Inr None" for n
    by (simp add: ecma_find_named_property_def ecma_get_object_def example_fresh_state_def
        init_empty_state)
  have a: "\<forall>magic_id. ecma_is_string_magic (ECMA_STRING_MAGIC ECMA_MAGIC_STRING_TO_STRING_UL) =
             Some magic_id \<longrightarrow> magic_id \<notin> set ecma_builtin_object_property_names"
    by (simp add: ecma_builtin_object_property_names_def)
  have b: "\<forall>magic_id. ecma_is_string_magic (ECMA_STRING_HEAP ''valueOf'') =
             Some magic_id \<longrightarrow> magic_id \<notin> set ecma_builtin_object_property_names"
    by simp
  show ?thesis
    using i o f absent_name_not_found [OF i o f a] absent_name_not_found [OF i o f b]
    by simp
qed

text \<open>
  Claim C8. The table has 15 entries, fewer than the 32 bits of the mask, as the static
  assertion demands; the shift and the subtraction of the initial mask do not wrap around
  in 32 bits; and an index the search of the table returns is \<open>-1\<close> or a position of the
  table, hence a bit position below 32.
\<close>

theorem property_number_within_mask:
  "ecma_builtin_object_property_number = 15
   \<and> ecma_builtin_object_property_number < 32
   \<and> unat (push_bit ecma_builtin_object_property_number 1 :: 32 word) =
       2 ^ ecma_builtin_object_property_number
   \<and> unat ecma_builtin_object_initial_mask = 2 ^ ecma_builtin_object_property_number - 1
   \<and> (ecma_builtin_bin_search_for_magic_string_id_in_array E
         ecma_builtin_object_property_names ecma_builtin_object_property_number key = -1
       \<or> (0 \<le> ecma_builtin_bin_search_for_magic_string_id_in_array E
                 ecma_builtin_object_property_names ecma_builtin_object_property_number key
          \<and> ecma_builtin_bin_search_for_magic_string_id_in_array E
                 ecma_builtin_object_property_names ecma_builtin_object_property_number key
               < int ecma_builtin_object_property_number
          \<and> nat (ecma_builtin_bin_search_for_magic_string_id_in_array E
                 ecma_builtin_object_property_names ecma_builtin_object_property_number key)
               < 32))"
proof -
  have "unat ecma_builtin_object_initial_mask = 2 ^ ecma_builtin_object_property_number - 1"
    by (simp add: ecma_builtin_object_initial_mask_def property_number_15)
  moreover have "unat (push_bit ecma_builtin_object_property_number 1 :: 32 word) =
       2 ^ ecma_builtin_object_property_number"
    by (simp add: property_number_15)
  ultimately show ?thesis
    using table_search_result [OF refl, of E key] by (auto simp: property_number_15)
qed

theorem property_number_within_mask_witness:
  "ecma_builtin_bin_search_for_magic_string_id_in_array example_enum_values
     ecma_builtin_object_property_names ecma_builtin_object_property_number
     ECMA_MAGIC_STRING_KEYS = 14
   \<and> unat ecma_builtin_object_initial_mask = 32767"
  using property_number_within_mask [of example_enum_values ECMA_MAGIC_STRING_KEYS]
    table_search_found [OF example_sorted, of 14]
  by (simp add: names_nth property_number_15)

lemma make_function_object_eq:
  "ecma_builtin_make_function_object_for_routine s b rid =
     Inr (length (heap s),
          s\<lparr>heap := heap s @
            [\<lparr>object_type = ECMA_OBJECT_TYPE_FUNCTION, is_extensible = True, is_builtin = True,
              builtin_routine = Some (b, rid), prototype_object_p = None,
              properties = [], refs = 1, gc_generation = 0,
              gc_may_ref_younger_objects = False\<rparr>]\<rparr>)"
  by (simp add: ecma_builtin_make_function_object_for_routine_def ecma_create_object_def
      ecma_get_object_def ecma_set_object_def)

lemma routine_step_details:
  assumes E: "ecma_magic_strings_sorted E"
      and G: "ecma_object_object_p s = Some p" and V: "p < length (heap s)"
      and M: "find (is_internal_property MASK) (properties (heap s ! p)) =
                Some (ECMA_PROPERTY_INTERNAL MASK m)"
      and N: "find (is_named_property (ECMA_STRING_MAGIC rid)) (properties (heap s ! p)) = None"
      and i: "i < 15" "ecma_builtin_object_property_names ! i = rid"
      and R: "rid \<in> set ecma_builtin_object_routine_ids"
      and b: "bit m i"
  shows "\<exists>s' fp s1 s2 fobj.
      ecma_builtin_object_try_to_instantiate_property E s p (ECMA_STRING_MAGIC rid) =
        Inr (Some (ECMA_PROPERTY_NAMEDDATA (ECMA_STRING_MAGIC rid) (ECMA_TYPE_OBJECT fp)
                     ECMA_PROPERTY_WRITABLE ECMA_PROPERTY_NOT_ENUMERABLE
                     ECMA_PROPERTY_CONFIGURABLE), s')
    \<and> ecma_find_named_property s' p (ECMA_STRING_MAGIC rid) =
        Inr (Some (ECMA_PROPERTY_NAMEDDATA (ECMA_STRING_MAGIC rid) (ECMA_TYPE_OBJECT fp)
                     ECMA_PROPERTY_WRITABLE ECMA_PROPERTY_NOT_ENUMERABLE
                     ECMA_PROPERTY_CONFIGURABLE))
    \<and> ecma_get_object s fp = Inl JERRY_INVALID_ACCESS
    \<and> ecma_set_internal_property_value s p MASK (m AND NOT (push_bit i 1)) = Inr s1
    \<and> ecma_builtin_make_function_object_for_routine s1 ECMA_BUILTIN_ID_OBJECT rid = Inr (fp, s2)
    \<and> ecma_get_object s2 fp = Inr fobj
    \<and> object_type fobj = ECMA_OBJECT_TYPE_FUNCTION
    \<and> builtin_routine fobj = Some (ECMA_BUILTIN_ID_OBJECT, rid)
    \<and> ecma_get_object s' fp = Inr fobj
    \<and> ecma_get_internal_property s' p MASK = Inr (m AND NOT (push_bit i 1))"
proof -
  have N': "find (is_named_property (ECMA_STRING_MAGIC (ecma_builtin_object_property_names ! i)))
             (properties (heap s ! p)) = None"
    using N i(2) by simp
  have t: "ecma_builtin_object_try_to_instantiate_property E s p (ECMA_STRING_MAGIC rid) =
           ecma_builtin_object_instantiate_at s p (ECMA_STRING_MAGIC rid) rid i"
    using try_to_instantiate_found [OF E G V N' i(1)] i(2) by simp
  show ?thesis
    unfolding t instantiate_at_routine [OF V M N b R] make_function_object_eq
    using V M
    by (simp add: ecma_find_named_property_def ecma_get_object_def
        ecma_set_internal_property_value_def ecma_set_object_def
        ecma_get_internal_property_def nth_append routine_function_object_def)
qed

text \<open>
  Claim C1. On the Object object just initialised (the mask has its 15 bits set), a request
  for the name of a routine, \<^verbatim>\<open>"keys"\<close> or any other of the thirteen, creates and returns a
  named data property that the object did not have, writable, not enumerable and
  configurable; its value is a new function object, the one the registration path builds
  for the routine; the bit of the identifier, and no other, is cleared, which leaves 14
  bits set.
\<close>

theorem instantiate_routine_property:
  assumes "ecma_magic_strings_sorted E"
      and "ecma_object_object_p s0 = None"
      and "rid \<in> set ecma_builtin_object_routine_ids"
  shows "\<exists>s obj_p i s' fp s1 s2 fobj.
      ecma_builtin_init_object_object E s0 = Inr s
    \<and> ecma_object_object_p s = Some obj_p
    \<and> ecma_get_internal_property s obj_p MASK = Inr ecma_builtin_object_initial_mask
    \<and> mask_bits_set ecma_builtin_object_initial_mask = 15
    \<and> ecma_find_named_property s obj_p (ECMA_STRING_MAGIC rid) = Inr None
    \<and> i < 15 \<and> ecma_builtin_object_property_names ! i = rid
    \<and> ecma_builtin_object_try_to_instantiate_property E s obj_p (ECMA_STRING_MAGIC rid) =
        Inr (Some (ECMA_PROPERTY_NAMEDDATA (ECMA_STRING_MAGIC rid) (ECMA_TYPE_OBJECT fp)
                     ECMA_PROPERTY_WRITABLE ECMA_PROPERTY_NOT_ENUMERABLE
                     ECMA_PROPERTY_CONFIGURABLE), s')
    \<and> ecma_find_named_property s' obj_p (ECMA_STRING_MAGIC rid) =
        Inr (Some (ECMA_PROPERTY_NAMEDDATA (ECMA_STRING_MAGIC rid) (ECMA_TYPE_OBJECT fp)
                     ECMA_PROPERTY_WRITABLE ECMA_PROPERTY_NOT_ENUMERABLE
                     ECMA_PROPERTY_CONFIGURABLE))
    \<and> ecma_get_object s fp = Inl JERRY_INVALID_ACCESS
    \<and> ecma_set_internal_property_value s obj_p MASK
        (ecma_builtin_object_initial_mask AND NOT (push_bit i 1)) = Inr s1
    \<and> ecma_builtin_make_function_object_for_routine s1 ECMA_BUILTIN_ID_OBJECT rid = Inr (fp, s2)
    \<and> ecma_get_object s2 fp = Inr fobj
    \<and> object_type fobj = ECMA_OBJECT_TYPE_FUNCTION
    \<and> builtin_routine fobj = Some (ECMA_BUILTIN_ID_OBJECT, rid)
    \<and> ecma_get_object s' fp = Inr fobj
    \<and> ecma_get_internal_property s' obj_p MASK =
        Inr (ecma_builtin_object_initial_mask AND NOT (push_bit i 1))
    \<and> (\<forall>j. bit (ecma_builtin_object_initial_mask AND NOT (push_bit i 1)) j =
            (bit ecma_builtin_object_initial_mask j \<and> j \<noteq> i))
    \<and> mask_bits_set (ecma_builtin_object_initial_mask AND NOT (push_bit i 1)) = 14"
proof -
  obtain s where s: "ecma_builtin_init_object_object E s0 = Inr s"
    and inv: "object_object_inv s (length (heap s0)) ecma_builtin_object_initial_mask {}"
    using init_object_object_inv [OF assms(2)] by blast
  let ?p = "length (heap s0)"
  from inv have G: "ecma_object_object_p s = Some ?p" and V: "?p < length (heap s)"
    and M: "find (is_internal_property MASK) (properties (heap s ! ?p)) =
              Some (ECMA_PROPERTY_INTERNAL MASK ecma_builtin_object_initial_mask)"
    and N: "find (is_named_property n) (properties (heap s ! ?p)) = None" for n
    by (auto simp: object_object_inv_def)
  obtain i where i: "i < 15" "ecma_builtin_object_property_names ! i = rid"
    using routine_id_index [OF assms(3)] by blast
  have b: "bit ecma_builtin_object_initial_mask i" using i by (simp add: bit_initial_mask)
  from routine_step_details [OF assms(1) G V M N i assms(3) b]
  obtain s' fp s1 s2 fobj where
    "ecma_builtin_object_try_to_instantiate_property E s ?p (ECMA_STRING_MAGIC rid) =
        Inr (Some (ECMA_PROPERTY_NAMEDDATA (ECMA_STRING_MAGIC rid) (ECMA_TYPE_OBJECT fp)
                     ECMA_PROPERTY_WRITABLE ECMA_PROPERTY_NOT_ENUMERABLE
                     ECMA_PROPERTY_CONFIGURABLE), s')"
    "ecma_find_named_property s' ?p (ECMA_STRING_MAGIC rid) =
        Inr (Some (ECMA_PROPERTY_NAMEDDATA (ECMA_STRING_MAGIC rid) (ECMA_TYPE_OBJECT fp)
                     ECMA_PROPERTY_WRITABLE ECMA_PROPERTY_NOT_ENUMERABLE
                     ECMA_PROPERTY_CONFIGURABLE))"
    "ecma_get_object s fp = Inl JERRY_INVALID_ACCESS"
    "ecma_set_internal_property_value s ?p MASK
        (ecma_builtin_object_initial_mask AND NOT (push_bit i 1)) = Inr s1"
    "ecma_builtin_make_function_object_for_routine s1 ECMA_BUILTIN_ID_OBJECT rid = Inr (fp, s2)"
    "ecma_get_object s2 fp = Inr fobj"
    "object_type fobj = ECMA_OBJECT_TYPE_FUNCTION"
    "builtin_routine fobj = Some (ECMA_BUILTIN_ID_OBJECT, rid)"
    "ecma_get_object s' fp = Inr fobj"
    "ecma_get_internal_property s' ?p MASK =
        Inr (ecma_builtin_object_initial_mask AND NOT (push_bit i 1))"
    by blast
  moreover have "ecma_get_internal_property s ?p MASK = Inr ecma_builtin_object_initial_mask"
    using V M by (simp add: ecma_get_internal_property_def)
  moreover have "ecma_find_named_property s ?p (ECMA_STRING_MAGIC rid) = Inr None"
    using V N by (simp add: ecma_find_named_property_def)
  moreover note s G i mask_bits_set_initial mask_bits_set_initial_clear [OF i(1)]
    bit_clear_iff [of ecma_builtin_object_initial_mask i]
  ultimately show ?thesis by blast
qed

text \<open>
  Claim C5. On the Object object just initialised, a request for \<^verbatim>\<open>"length"\<close> creates and
  returns a named data property that is not writable, not enumerable and not configurable,
  whose value is the Number 1; the bit of \<^verbatim>\<open>"length"\<close> (index 1), and no other, is cleared.
\<close>

theorem instantiate_length_property:
  assumes "ecma_magic_strings_sorted E"
      and "ecma_object_object_p s0 = None"
  shows "\<exists>s obj_p s'.
      ecma_builtin_init_object_object E s0 = Inr s
    \<and> ecma_object_object_p s = Some obj_p
    \<and> ecma_get_internal_property s obj_p MASK = Inr ecma_builtin_object_initial_mask
    \<and> ecma_find_named_property s obj_p (ECMA_STRING_MAGIC ECMA_MAGIC_STRING_LENGTH) = Inr None
    \<and> ecma_builtin_object_property_names ! 1 = ECMA_MAGIC_STRING_LENGTH
    \<and> ecma_builtin_object_try_to_instantiate_property E s obj_p
        (ECMA_STRING_MAGIC ECMA_MAGIC_STRING_LENGTH) =
        Inr (Some (ECMA_PROPERTY_NAMEDDATA (ECMA_STRING_MAGIC ECMA_MAGIC_STRING_LENGTH)
                     (ECMA_TYPE_NUMBER 1) ECMA_PROPERTY_NOT_WRITABLE
                     ECMA_PROPERTY_NOT_ENUMERABLE ECMA_PROPERTY_NOT_CONFIGURABLE), s')
    \<and> ecma_find_named_property s' obj_p (ECMA_STRING_MAGIC ECMA_MAGIC_STRING_LENGTH) =
        Inr (Some (ECMA_PROPERTY_NAMEDDATA (ECMA_STRING_MAGIC ECMA_MAGIC_STRING_LENGTH)
                     (ECMA_TYPE_NUMBER 1) ECMA_PROPERTY_NOT_WRITABLE
                     ECMA_PROPERTY_NOT_ENUMERABLE ECMA_PROPERTY_NOT_CONFIGURABLE))
    \<and> ecma_get_internal_property s' obj_p MASK =
        Inr (ecma_builtin_object_initial_mask AND NOT (push_bit 1 1))
    \<and> (\<forall>j. bit (ecma_builtin_object_initial_mask AND NOT (push_bit 1 1)) j =
            (bit ecma_builtin_object_initial_mask j \<and> j \<noteq> 1))
    \<and> mask_bits_set (ecma_builtin_object_initial_mask AND NOT (push_bit 1 1)) = 14"
proof -
  obtain s where s: "ecma_builtin_init_object_object E s0 = Inr s"
    and inv: "object_object_inv s (length (heap s0)) ecma_builtin_object_initial_mask {}"
    using init_object_object_inv [OF assms(2)] by blast
  let ?p = "length (heap s0)"
  let ?name = "ECMA_STRING_MAGIC ECMA_MAGIC_STRING_LENGTH"
  from inv have G: "ecma_object_object_p s = Some ?p" and V: "?p < length (heap s)"
    and M: "find (is_internal_property MASK) (properties (heap s ! ?p)) =
              Some (ECMA_PROPERTY_INTERNAL MASK ecma_builtin_object_initial_mask)"
    and N: "find (is_named_property n) (properties (heap s ! ?p)) = None" for n
    by (auto simp: object_object_inv_def)
  have b: "bit ecma_builtin_object_initial_mask 1" by (simp add: bit_initial_mask)
  have t: "ecma_builtin_object_try_to_instantiate_property E s ?p ?name =
           ecma_builtin_object_instantiate_at s ?p ?name ECMA_MAGIC_STRING_LENGTH 1"
    using try_to_instantiate_found [OF assms(1) G V N, of 1]
    by (simp add: ecma_builtin_object_property_names_def)
  have "\<exists>s'. ecma_builtin_object_try_to_instantiate_property E s ?p ?name =
        Inr (Some (ECMA_PROPERTY_NAMEDDATA ?name
                     (ECMA_TYPE_NUMBER 1) ECMA_PROPERTY_NOT_WRITABLE
                     ECMA_PROPERTY_NOT_ENUMERABLE ECMA_PROPERTY_NOT_CONFIGURABLE), s')
    \<and> ecma_find_named_property s' ?p ?name =
        Inr (Some (ECMA_PROPERTY_NAMEDDATA ?name
                     (ECMA_TYPE_NUMBER 1) ECMA_PROPERTY_NOT_WRITABLE
                     ECMA_PROPERTY_NOT_ENUMERABLE ECMA_PROPERTY_NOT_CONFIGURABLE))
    \<and> ecma_get_internal_property s' ?p MASK =
        Inr (ecma_builtin_object_initial_mask AND NOT (push_bit 1 1))"
    unfolding t instantiate_at_length [OF V M N b]
    using V M
    by (simp add: ecma_find_named_property_def ecma_get_object_def
        ecma_get_internal_property_def)
  moreover have "ecma_get_internal_property s ?p MASK = Inr ecma_builtin_object_initial_mask"
    using V M by (simp add: ecma_get_internal_property_def)
  moreover have "ecma_find_named_property s ?p ?name = Inr None"
    using V N by (simp add: ecma_find_named_property_def)
  moreover have "mask_bits_set (ecma_builtin_object_initial_mask AND NOT (push_bit 1 1)) = 14"
    by (rule mask_bits_set_initial_clear) simp
  moreover note s G names_nth(2) bit_clear_iff [of ecma_builtin_object_initial_mask 1]
  ultimately show ?thesis by blast
qed

lemma get_internal_property_Inr:
  assumes "ecma_get_internal_property s p i = Inr m"
  shows "p < length (heap s)"
    and "find (is_internal_property i) (properties (heap s ! p)) =
           Some (ECMA_PROPERTY_INTERNAL i m)"
proof -
  show V: "p < length (heap s)"
    using assms
    by (auto simp: ecma_get_internal_property_def ecma_get_object_def split: if_splits)
  with assms obtain q where q: "find (is_internal_property i) (properties (heap s ! p)) = Some q"
    by (auto simp: ecma_get_internal_property_def split: option.splits)
  with find_internal_Some obtain v where "q = ECMA_PROPERTY_INTERNAL i v" by blast
  with q V assms show "find (is_internal_property i) (properties (heap s ! p)) =
           Some (ECMA_PROPERTY_INTERNAL i m)"
    by (simp add: ecma_get_internal_property_def)
qed

lemma find_named_property_Inr:
  assumes "ecma_find_named_property s p n = Inr r"
  shows "p < length (heap s)"
    and "find (is_named_property n) (properties (heap s ! p)) = r"
  using assms
  by (auto simp: ecma_find_named_property_def ecma_get_object_def split: if_splits)

lemma instantiate_value_Inr:
  assumes "ecma_builtin_object_instantiate_value s rid = Inr r"
  shows "rid = ECMA_MAGIC_STRING_LENGTH \<or> rid \<in> set ecma_builtin_object_routine_ids"
  using assms by (cases rid) (simp_all add: ecma_builtin_object_routine_ids_def)

lemma try_to_instantiate_Some:
  assumes "ecma_builtin_object_try_to_instantiate_property E s p name = Inr (Some pr, s1)"
  obtains rid r m where
    "name = ECMA_STRING_MAGIC rid"
    "ecma_builtin_bin_search_for_magic_string_id_in_array E ecma_builtin_object_property_names
       ecma_builtin_object_property_number rid = int r"
    "r < 15"
    "magic_string_id_value E (ecma_builtin_object_property_names ! r) =
       magic_string_id_value E rid"
    "ecma_object_object_p s = Some p" "p < length (heap s)"
    "find (is_internal_property MASK) (properties (heap s ! p)) =
       Some (ECMA_PROPERTY_INTERNAL MASK m)"
    "find (is_named_property name) (properties (heap s ! p)) = None"
    "bit m r"
    "rid = ECMA_MAGIC_STRING_LENGTH \<or> rid \<in> set ecma_builtin_object_routine_ids"
    "ecma_builtin_object_instantiate_at s p name rid r = Inr (Some pr, s1)"
proof -
  from assms have G: "ecma_object_object_p s = Some p"
    by (auto simp: ecma_builtin_object_try_to_instantiate_property_def
        ecma_builtin_is_object_object_def split: if_splits)
  from assms have F: "ecma_find_named_property s p name = Inr None"
    by (auto simp: ecma_builtin_object_try_to_instantiate_property_def
        split: if_splits sum.splits option.splits)
  note V = find_named_property_Inr(1) [OF F] and N = find_named_property_Inr(2) [OF F]
  from assms G F obtain rid where rid: "name = ECMA_STRING_MAGIC rid"
    by (cases name)
       (auto simp: ecma_builtin_object_try_to_instantiate_property_def
          ecma_builtin_is_object_object_def)
  define idx where "idx = ecma_builtin_bin_search_for_magic_string_id_in_array E
       ecma_builtin_object_property_names ecma_builtin_object_property_number rid"
  from assms G F rid have idx: "idx \<noteq> -1"
    and at: "ecma_builtin_object_instantiate_at s p name rid (nat idx) = Inr (Some pr, s1)"
    by (auto simp: ecma_builtin_object_try_to_instantiate_property_def
        ecma_builtin_is_object_object_def Let_def idx_def split: if_splits)
  from table_search_result [OF idx_def [symmetric]] idx
  have r: "0 \<le> idx" "idx < 15"
    "magic_string_id_value E (ecma_builtin_object_property_names ! nat idx) =
       magic_string_id_value E rid"
    by auto
  from at obtain m where gm: "ecma_get_internal_property s p MASK = Inr m"
    by (auto simp: ecma_builtin_object_instantiate_at_def Let_def split: sum.splits)
  note M = get_internal_property_Inr(2) [OF gm]
  have b: "bit m (nat idx)"
  proof (rule ccontr)
    assume "\<not> bit m (nat idx)"
    from instantiate_at_clear [OF V M this] at show False by simp
  qed
  from at gm b obtain s' res where
    "ecma_builtin_object_instantiate_value s' rid = Inr res"
    by (auto simp: ecma_builtin_object_instantiate_at_def Let_def mask_bit_test
        split: sum.splits)
  note k = instantiate_value_Inr [OF this]
  show thesis
    using that [of rid "nat idx" m] rid r G V M N b k at idx_def by simp
qed

text \<open>
  Claim C2. Lazy instantiation is idempotent. Once a first request has created the
  property of a name, any second request for that name which enters the function, that
  is, on a miss of the ordinary lookup as the entry assertions of lines 527 and 528 state
  it, and with the mask as the first request left it, finds the bit of the identifier
  already clear and returns \<^verbatim>\<open>NULL\<close>: it creates nothing and leaves the state, the mask
  included, as it was.
\<close>

theorem second_request_not_found:
  assumes "ecma_builtin_object_try_to_instantiate_property E s obj_p prop_name_p =
             Inr (Some prop_p, s1)"
      and "ecma_builtin_is_object_object s2 obj_p"
      and "ecma_get_internal_property s2 obj_p MASK = ecma_get_internal_property s1 obj_p MASK"
      and "ecma_find_named_property s2 obj_p prop_name_p = Inr None"
  shows "ecma_find_named_property s1 obj_p prop_name_p = Inr (Some prop_p)
       \<and> (\<exists>rid r m. ecma_is_string_magic prop_name_p = Some rid
             \<and> ecma_builtin_bin_search_for_magic_string_id_in_array E
                   ecma_builtin_object_property_names ecma_builtin_object_property_number rid =
                 int r
             \<and> ecma_get_internal_property s2 obj_p MASK = Inr m \<and> \<not> bit m r)
       \<and> ecma_builtin_object_try_to_instantiate_property E s2 obj_p prop_name_p =
           Inr (None, s2)"
proof -
  from try_to_instantiate_Some [OF assms(1)]
  obtain rid r m where
    rid: "prop_name_p = ECMA_STRING_MAGIC rid"
    and idx: "ecma_builtin_bin_search_for_magic_string_id_in_array E
       ecma_builtin_object_property_names ecma_builtin_object_property_number rid = int r"
    and r: "r < 15"
    and G: "ecma_object_object_p s = Some obj_p" and V: "obj_p < length (heap s)"
    and M: "find (is_internal_property MASK) (properties (heap s ! obj_p)) =
       Some (ECMA_PROPERTY_INTERNAL MASK m)"
    and N: "find (is_named_property prop_name_p) (properties (heap s ! obj_p)) = None"
    and b: "bit m r"
    and k: "rid = ECMA_MAGIC_STRING_LENGTH \<or> rid \<in> set ecma_builtin_object_routine_ids"
    and at: "ecma_builtin_object_instantiate_at s obj_p prop_name_p rid r = Inr (Some prop_p, s1)"
    by blast
  have post: "ecma_object_object_p s1 = Some obj_p
      \<and> ecma_find_named_property s1 obj_p prop_name_p = Inr (Some prop_p)
      \<and> ecma_get_internal_property s1 obj_p MASK = Inr (m AND NOT (push_bit r 1))"
    using k
  proof
    assume "rid = ECMA_MAGIC_STRING_LENGTH"
    with at instantiate_at_length [OF V M N b] G V M show ?thesis
      by (auto simp: ecma_find_named_property_def ecma_get_internal_property_def)
  next
    assume "rid \<in> set ecma_builtin_object_routine_ids"
    from at instantiate_at_routine [OF V M N b this] G V M show ?thesis
      by (auto simp: ecma_find_named_property_def ecma_get_internal_property_def nth_append)
  qed
  from post assms(3)
  have g2: "ecma_get_internal_property s2 obj_p MASK = Inr (m AND NOT (push_bit r 1))" by simp
  note V2 = get_internal_property_Inr(1) [OF g2] and M2 = get_internal_property_Inr(2) [OF g2]
  have c: "\<not> bit (m AND NOT (push_bit r 1)) r" by (simp add: bit_clear_exp_iff)
  from rid idx g2 c
  have 1: "\<exists>rid r m. ecma_is_string_magic prop_name_p = Some rid
             \<and> ecma_builtin_bin_search_for_magic_string_id_in_array E
                   ecma_builtin_object_property_names ecma_builtin_object_property_number rid =
                 int r
             \<and> ecma_get_internal_property s2 obj_p MASK = Inr m \<and> \<not> bit m r"
    by auto
  from instantiate_at_clear [OF V2 M2 c]
  have "ecma_builtin_object_instantiate_at s2 obj_p prop_name_p rid r = Inr (None, s2)" .
  with assms(2,4) idx r rid
  have 2: "ecma_builtin_object_try_to_instantiate_property E s2 obj_p prop_name_p =
           Inr (None, s2)"
    by (simp add: ecma_builtin_object_try_to_instantiate_property_def Let_def)
  from post 1 2 show ?thesis by blast
qed

lemma try_to_instantiate_Some_post:
  assumes "ecma_builtin_object_try_to_instantiate_property E s p name = Inr (Some pr, s1)"
  obtains rid r m where
    "name = ECMA_STRING_MAGIC rid"
    "ecma_builtin_bin_search_for_magic_string_id_in_array E ecma_builtin_object_property_names
       ecma_builtin_object_property_number rid = int r"
    "r < 15"
    "magic_string_id_value E (ecma_builtin_object_property_names ! r) =
       magic_string_id_value E rid"
    "ecma_get_internal_property s p MASK = Inr m"
    "bit m r"
    "ecma_object_object_p s1 = Some p"
    "ecma_find_named_property s1 p name = Inr (Some pr)"
    "ecma_get_internal_property s1 p MASK = Inr (m AND NOT (push_bit r 1))"
proof -
  from try_to_instantiate_Some [OF assms]
  obtain rid r m where
    rid: "name = ECMA_STRING_MAGIC rid"
    and idx: "ecma_builtin_bin_search_for_magic_string_id_in_array E
       ecma_builtin_object_property_names ecma_builtin_object_property_number rid = int r"
    and r: "r < 15"
    and v: "magic_string_id_value E (ecma_builtin_object_property_names ! r) =
       magic_string_id_value E rid"
    and G: "ecma_object_object_p s = Some p" and V: "p < length (heap s)"
    and M: "find (is_internal_property MASK) (properties (heap s ! p)) =
       Some (ECMA_PROPERTY_INTERNAL MASK m)"
    and N: "find (is_named_property name) (properties (heap s ! p)) = None"
    and b: "bit m r"
    and k: "rid = ECMA_MAGIC_STRING_LENGTH \<or> rid \<in> set ecma_builtin_object_routine_ids"
    and at: "ecma_builtin_object_instantiate_at s p name rid r = Inr (Some pr, s1)"
    by blast
  have post: "ecma_object_object_p s1 = Some p
      \<and> ecma_find_named_property s1 p name = Inr (Some pr)
      \<and> ecma_get_internal_property s1 p MASK = Inr (m AND NOT (push_bit r 1))"
    using k
  proof
    assume "rid = ECMA_MAGIC_STRING_LENGTH"
    with at instantiate_at_length [OF V M N b] G V M show ?thesis
      by (auto simp: ecma_find_named_property_def ecma_get_internal_property_def)
  next
    assume "rid \<in> set ecma_builtin_object_routine_ids"
    from at instantiate_at_routine [OF V M N b this] G V M show ?thesis
      by (auto simp: ecma_find_named_property_def ecma_get_internal_property_def nth_append)
  qed
  moreover have "ecma_get_internal_property s p MASK = Inr m"
    using V M by (simp add: ecma_get_internal_property_def)
  ultimately show thesis using that [of rid r m] rid idx r v b by blast
qed

lemma instantiate_all_append:
  "instantiate_all E s p (xs @ ys) =
     (case instantiate_all E s p xs of
        Inl e \<Rightarrow> Inl e
      | Inr None \<Rightarrow> Inr None
      | Inr (Some s') \<Rightarrow> instantiate_all E s' p ys)"
  by (induction xs arbitrary: s) (auto split: sum.splits option.splits)

lemma inv_prototype:
  assumes E: "ecma_magic_strings_sorted E"
      and inv: "object_object_inv s p m D"
      and new: "ECMA_MAGIC_STRING_PROTOTYPE \<notin> D"
      and b: "bit m 0"
  shows "ecma_builtin_object_try_to_instantiate_property E s p
           (ECMA_STRING_MAGIC ECMA_MAGIC_STRING_PROTOTYPE) = Inl JERRY_UNIMPLEMENTED"
proof -
  let ?name = "ECMA_STRING_MAGIC ECMA_MAGIC_STRING_PROTOTYPE"
  from inv have G: "ecma_object_object_p s = Some p" and V: "p < length (heap s)"
    and M: "find (is_internal_property MASK) (properties (heap s ! p)) =
              Some (ECMA_PROPERTY_INTERNAL MASK m)"
    and S: "\<And>n. find (is_named_property n) (properties (heap s ! p)) \<noteq> None \<Longrightarrow>
              n \<in> ECMA_STRING_MAGIC ` D"
    by (auto simp: object_object_inv_def)
  have N: "find (is_named_property ?name) (properties (heap s ! p)) = None"
  proof (rule ccontr)
    assume "find (is_named_property ?name) (properties (heap s ! p)) \<noteq> None"
    from S [OF this] have "ECMA_MAGIC_STRING_PROTOTYPE \<in> D" by auto
    with new show False by simp
  qed
  have "ecma_builtin_object_try_to_instantiate_property E s p ?name =
        ecma_builtin_object_instantiate_at s p ?name ECMA_MAGIC_STRING_PROTOTYPE 0"
    using try_to_instantiate_found [OF E G V, of 0] N by (simp add: names_nth)
  then show ?thesis by (simp add: instantiate_at_prototype [OF V M b])
qed

lemma instantiate_all_with_prototype:
  assumes E: "ecma_magic_strings_sorted E"
      and inv: "object_object_inv s p ecma_builtin_object_initial_mask {}"
      and d: "distinct ids"
      and a: "set ids \<subseteq> set ecma_builtin_object_property_names"
      and pr: "ECMA_MAGIC_STRING_PROTOTYPE \<in> set ids"
  shows "instantiate_all E s p ids = Inl JERRY_UNIMPLEMENTED"
proof -
  from pr obtain xs ys where ids: "ids = xs @ ECMA_MAGIC_STRING_PROTOTYPE # ys"
    by (auto dest: split_list)
  from d a ids have xs: "distinct xs"
    "set xs \<subseteq> set ecma_builtin_object_property_names - {ECMA_MAGIC_STRING_PROTOTYPE}"
    by auto
  from instantiate_all_inv [OF E inv xs(1,2)]
  obtain s' m' where s': "instantiate_all E s p xs = Inr (Some s')"
    and inv': "object_object_inv s' p m' (set xs)"
    and bits: "\<forall>j. bit m' j = (j < 15 \<and> ecma_builtin_object_property_names ! j \<notin> set xs)"
    by (auto simp: bit_initial_mask)
  have "ECMA_MAGIC_STRING_PROTOTYPE \<notin> set xs" using xs(2) by auto
  moreover from this bits have "bit m' 0" by (simp add: names_nth)
  ultimately have "ecma_builtin_object_try_to_instantiate_property E s' p
           (ECMA_STRING_MAGIC ECMA_MAGIC_STRING_PROTOTYPE) = Inl JERRY_UNIMPLEMENTED"
    using inv_prototype [OF E inv'] by blast
  then show ?thesis by (simp add: ids instantiate_all_append s')
qed

text \<open>
  Claim C3, as amended. The mask of the Object object just initialised is
  \<^verbatim>\<open>(1 << 15) - 1\<close>, with exactly 15 bits set. Every request that returns a property clears
  the bit of the requested identifier and no other. A request for \<^verbatim>\<open>"prototype"\<close> ends in
  \<^verbatim>\<open>JERRY_UNIMPLEMENTED\<close>, so that a sequence of requests for all 15 names, in any order,
  ends there. After the 14 other properties have been instantiated once each, in any
  order, the mask is exactly 1: the bit of \<^verbatim>\<open>"prototype"\<close> alone is left.
\<close>

theorem mask_accounting:
  assumes "ecma_magic_strings_sorted E"
      and "ecma_object_object_p s0 = None"
      and "distinct ids"
      and "set ids = set ecma_builtin_object_property_names - {ECMA_MAGIC_STRING_PROTOTYPE}"
  shows "\<exists>s obj_p s'.
      ecma_builtin_init_object_object E s0 = Inr s
    \<and> ecma_object_object_p s = Some obj_p
    \<and> ecma_get_internal_property s obj_p MASK = Inr ecma_builtin_object_initial_mask
    \<and> ecma_builtin_object_initial_mask = push_bit 15 1 - 1
    \<and> mask_bits_set ecma_builtin_object_initial_mask = 15
    \<and> (\<forall>t name_p prop_p t'.
          ecma_builtin_object_try_to_instantiate_property E t obj_p name_p =
            Inr (Some prop_p, t') \<longrightarrow>
          (\<exists>i m. i < 15 \<and> name_p = ECMA_STRING_MAGIC (ecma_builtin_object_property_names ! i)
             \<and> ecma_get_internal_property t obj_p MASK = Inr m \<and> bit m i
             \<and> ecma_get_internal_property t' obj_p MASK = Inr (m AND NOT (push_bit i 1))
             \<and> (\<forall>j. bit (m AND NOT (push_bit i 1)) j = (bit m j \<and> j \<noteq> i))))
    \<and> ecma_builtin_object_try_to_instantiate_property E s obj_p
        (ECMA_STRING_MAGIC ECMA_MAGIC_STRING_PROTOTYPE) = Inl JERRY_UNIMPLEMENTED
    \<and> (\<forall>all_ids. distinct all_ids \<and> set all_ids = set ecma_builtin_object_property_names \<longrightarrow>
          instantiate_all E s obj_p all_ids = Inl JERRY_UNIMPLEMENTED)
    \<and> instantiate_all E s obj_p ids = Inr (Some s')
    \<and> ecma_get_internal_property s' obj_p MASK = Inr 1
    \<and> mask_bits_set 1 = 1"
proof -
  obtain s where s: "ecma_builtin_init_object_object E s0 = Inr s"
    and inv: "object_object_inv s (length (heap s0)) ecma_builtin_object_initial_mask {}"
    using init_object_object_inv [OF assms(2)] by blast
  let ?p = "length (heap s0)"
  from inv have G: "ecma_object_object_p s = Some ?p" and V: "?p < length (heap s)"
    and M: "find (is_internal_property MASK) (properties (heap s ! ?p)) =
              Some (ECMA_PROPERTY_INTERNAL MASK ecma_builtin_object_initial_mask)"
    by (auto simp: object_object_inv_def)
  have g: "ecma_get_internal_property s ?p MASK = Inr ecma_builtin_object_initial_mask"
    using V M by (simp add: ecma_get_internal_property_def)
  have im: "ecma_builtin_object_initial_mask = push_bit 15 1 - 1"
    by (simp add: ecma_builtin_object_initial_mask_def property_number_15)
  have step: "\<exists>i m. i < 15 \<and> name_p = ECMA_STRING_MAGIC (ecma_builtin_object_property_names ! i)
             \<and> ecma_get_internal_property t ?p MASK = Inr m \<and> bit m i
             \<and> ecma_get_internal_property t' ?p MASK = Inr (m AND NOT (push_bit i 1))
             \<and> (\<forall>j. bit (m AND NOT (push_bit i 1)) j = (bit m j \<and> j \<noteq> i))"
    if "ecma_builtin_object_try_to_instantiate_property E t ?p name_p = Inr (Some prop_p, t')"
    for t name_p prop_p t'
  proof -
    from try_to_instantiate_Some_post [OF that]
    obtain rid r m where
      "name_p = ECMA_STRING_MAGIC rid" "r < 15"
      "magic_string_id_value E (ecma_builtin_object_property_names ! r) =
         magic_string_id_value E rid"
      "ecma_get_internal_property t ?p MASK = Inr m" "bit m r"
      "ecma_get_internal_property t' ?p MASK = Inr (m AND NOT (push_bit r 1))"
      by blast
    moreover from this assms(1) have "ecma_builtin_object_property_names ! r = rid"
      by (auto simp: ecma_magic_strings_sorted_def dest: injD)
    ultimately show ?thesis using bit_clear_iff [of m r] by blast
  qed
  have b0: "bit ecma_builtin_object_initial_mask 0" by (simp add: bit_initial_mask)
  have proto: "ecma_builtin_object_try_to_instantiate_property E s ?p
        (ECMA_STRING_MAGIC ECMA_MAGIC_STRING_PROTOTYPE) = Inl JERRY_UNIMPLEMENTED"
    by (rule inv_prototype [OF assms(1) inv _ b0]) simp
  have all15: "instantiate_all E s ?p all_ids = Inl JERRY_UNIMPLEMENTED"
    if "distinct all_ids \<and> set all_ids = set ecma_builtin_object_property_names" for all_ids
    using that
    by (intro instantiate_all_with_prototype [OF assms(1) inv])
       (auto simp: ecma_builtin_object_property_names_def)
  from instantiate_all_inv [OF assms(1) inv assms(3)] assms(4)
  obtain s' m' where s': "instantiate_all E s ?p ids = Inr (Some s')"
    and inv': "object_object_inv s' ?p m' (set ids)"
    and bits: "\<forall>j. bit m' j = (j < 15 \<and> ecma_builtin_object_property_names ! j \<notin> set ids)"
    by (auto simp: bit_initial_mask)
  have notin: "(x \<notin> set ids) = (x \<notin> set ecma_builtin_object_property_names
                  \<or> x = ECMA_MAGIC_STRING_PROTOTYPE)" for x
    unfolding assms(4) by blast
  have bj: "bit m' j = (j = 0)" for j
  proof (cases "j < 15")
    case True
    then have "ecma_builtin_object_property_names ! j \<in> set ecma_builtin_object_property_names"
      by simp
    moreover have
      "(ecma_builtin_object_property_names ! j = ECMA_MAGIC_STRING_PROTOTYPE) = (j = 0)"
      using nth_eq_iff_index_eq [OF names_distinct, of j 0] True
      by (simp add: names_nth)
    ultimately show ?thesis using bits True by (simp add: notin)
  next
    case False
    then show ?thesis using bits by simp
  qed
  have "m' = 1"
  proof (rule bit_eqI)
    fix n show "bit m' n = bit (1 :: 32 word) n" by (simp add: bj bit_1_iff)
  qed
  with inv' have g': "ecma_get_internal_property s' ?p MASK = Inr 1"
    by (simp add: object_object_inv_def ecma_get_internal_property_def)
  have one: "mask_bits_set 1 = 1"
    by (simp add: mask_bits_set_card bit_1_iff)
  have stepA: "\<forall>t name_p prop_p t'.
          ecma_builtin_object_try_to_instantiate_property E t ?p name_p =
            Inr (Some prop_p, t') \<longrightarrow>
          (\<exists>i m. i < 15 \<and> name_p = ECMA_STRING_MAGIC (ecma_builtin_object_property_names ! i)
             \<and> ecma_get_internal_property t ?p MASK = Inr m \<and> bit m i
             \<and> ecma_get_internal_property t' ?p MASK = Inr (m AND NOT (push_bit i 1))
             \<and> (\<forall>j. bit (m AND NOT (push_bit i 1)) j = (bit m j \<and> j \<noteq> i)))"
    using step by blast
  have allA: "\<forall>all_ids. distinct all_ids \<and> set all_ids = set ecma_builtin_object_property_names \<longrightarrow>
          instantiate_all E s ?p all_ids = Inl JERRY_UNIMPLEMENTED"
    using all15 by blast
  show ?thesis
    apply (rule exI [of _ s], rule exI [of _ ?p], rule exI [of _ s'])
    apply (intro conjI)
              apply (rule s)
             apply (rule G)
            apply (rule g)
           apply (rule im)
          apply (rule mask_bits_set_initial)
         apply (rule stepA)
        apply (rule proto)
       apply (rule allA)
      apply (rule s')
     apply (rule g')
    apply (rule one)
    done
qed

lemma delete_property_valid:
  assumes "p < length (heap s)"
  shows "ecma_delete_property s p n =
           Inr (s\<lparr>heap := (heap s)[p := (heap s ! p)\<lparr>properties :=
                  filter (\<lambda>q. \<not> is_named_property n q) (properties (heap s ! p))\<rparr>]\<rparr>)"
  using assms by (simp add: ecma_delete_property_def ecma_set_object_def)

lemma find_named_filter [simp]:
  "find (is_named_property n) (filter (\<lambda>q. \<not> is_named_property n q) ps) = None"
  by (induction ps) auto

lemma find_internal_filter [simp]:
  "find (is_internal_property i) (filter (\<lambda>q. \<not> is_named_property n q) ps) =
     find (is_internal_property i) ps"
proof (induction ps)
  case Nil
  then show ?case by simp
next
  case (Cons q ps)
  then show ?case by (cases q) auto
qed

lemma example_fresh_state_facts:
  "ecma_object_object_p example_fresh_state = Some 0"
  "heap example_fresh_state \<noteq> []"
  "length (heap example_fresh_state) = 1"
  by (simp_all add: example_fresh_state_def init_empty_state)

lemma example_keys_try:
  "ecma_builtin_object_try_to_instantiate_property example_enum_values example_fresh_state 0
     (ECMA_STRING_MAGIC ECMA_MAGIC_STRING_KEYS) =
   Inr (Some (ECMA_PROPERTY_NAMEDDATA (ECMA_STRING_MAGIC ECMA_MAGIC_STRING_KEYS)
                (ECMA_TYPE_OBJECT 1) ECMA_PROPERTY_WRITABLE ECMA_PROPERTY_NOT_ENUMERABLE
                ECMA_PROPERTY_CONFIGURABLE),
        example_keys_state)"
proof -
  let ?name = "ECMA_STRING_MAGIC ECMA_MAGIC_STRING_KEYS"
  from example_fresh_state_inv
  have G: "ecma_object_object_p example_fresh_state = Some 0"
    and V: "0 < length (heap example_fresh_state)"
    and M: "find (is_internal_property MASK) (properties (heap example_fresh_state ! 0)) =
              Some (ECMA_PROPERTY_INTERNAL MASK ecma_builtin_object_initial_mask)"
    and N: "find (is_named_property n) (properties (heap example_fresh_state ! 0)) = None" for n
    by (auto simp: object_object_inv_def)
  have b: "bit ecma_builtin_object_initial_mask 14" by (simp add: bit_initial_mask)
  have R: "ECMA_MAGIC_STRING_KEYS \<in> set ecma_builtin_object_routine_ids"
    by (simp add: ecma_builtin_object_routine_ids_def)
  have t: "ecma_builtin_object_try_to_instantiate_property example_enum_values
             example_fresh_state 0 ?name =
           ecma_builtin_object_instantiate_at example_fresh_state 0 ?name
             ECMA_MAGIC_STRING_KEYS 14"
    using try_to_instantiate_found [OF example_sorted G V N, of 14] by (simp add: names_nth)
  note e = t [unfolded instantiate_at_routine [OF V M N b R]]
  show ?thesis
    unfolding example_keys_state_def e by (simp add: example_fresh_state_facts)
qed

lemma example_keys_state_inv:
  "object_object_inv example_keys_state 0
     (ecma_builtin_object_initial_mask AND NOT (push_bit 14 1)) {ECMA_MAGIC_STRING_KEYS}"
  using inv_step [OF example_sorted example_fresh_state_inv, of 14]
  by (simp add: names_nth bit_initial_mask example_keys_try)

lemma example_keys_deleted_state_facts:
  "ecma_delete_property example_keys_state 0 (ECMA_STRING_MAGIC ECMA_MAGIC_STRING_KEYS) =
     Inr example_keys_deleted_state"
  "ecma_builtin_is_object_object example_keys_deleted_state 0"
  "ecma_get_internal_property example_keys_deleted_state 0 MASK =
     ecma_get_internal_property example_keys_state 0 MASK"
  "ecma_find_named_property example_keys_deleted_state 0
     (ECMA_STRING_MAGIC ECMA_MAGIC_STRING_KEYS) = Inr None"
proof -
  from example_keys_state_inv
  have G: "ecma_object_object_p example_keys_state = Some 0"
    and V: "0 < length (heap example_keys_state)"
    by (auto simp: object_object_inv_def)
  note d = delete_property_valid [OF V, of "ECMA_STRING_MAGIC ECMA_MAGIC_STRING_KEYS"]
  show "ecma_delete_property example_keys_state 0 (ECMA_STRING_MAGIC ECMA_MAGIC_STRING_KEYS) =
     Inr example_keys_deleted_state"
    by (simp add: example_keys_deleted_state_def d)
  show "ecma_builtin_is_object_object example_keys_deleted_state 0"
    by (simp add: example_keys_deleted_state_def d ecma_builtin_is_object_object_def G)
  show "ecma_get_internal_property example_keys_deleted_state 0 MASK =
     ecma_get_internal_property example_keys_state 0 MASK"
    using V by (simp add: example_keys_deleted_state_def d ecma_get_internal_property_def
        ecma_get_object_def)
  show "ecma_find_named_property example_keys_deleted_state 0
     (ECMA_STRING_MAGIC ECMA_MAGIC_STRING_KEYS) = Inr None"
    using V by (simp add: example_keys_deleted_state_def d ecma_find_named_property_def
        ecma_get_object_def)
qed

theorem second_request_not_found_witness:
  "ecma_builtin_object_try_to_instantiate_property example_enum_values example_fresh_state 0
     (ECMA_STRING_MAGIC ECMA_MAGIC_STRING_KEYS) =
   Inr (Some (ECMA_PROPERTY_NAMEDDATA (ECMA_STRING_MAGIC ECMA_MAGIC_STRING_KEYS)
                (ECMA_TYPE_OBJECT 1) ECMA_PROPERTY_WRITABLE ECMA_PROPERTY_NOT_ENUMERABLE
                ECMA_PROPERTY_CONFIGURABLE),
        example_keys_state)
   \<and> ecma_delete_property example_keys_state 0 (ECMA_STRING_MAGIC ECMA_MAGIC_STRING_KEYS) =
       Inr example_keys_deleted_state
   \<and> ecma_builtin_is_object_object example_keys_deleted_state 0
   \<and> ecma_get_internal_property example_keys_deleted_state 0 MASK =
       ecma_get_internal_property example_keys_state 0 MASK
   \<and> ecma_find_named_property example_keys_deleted_state 0
       (ECMA_STRING_MAGIC ECMA_MAGIC_STRING_KEYS) = Inr None
   \<and> ecma_builtin_object_try_to_instantiate_property example_enum_values
       example_keys_deleted_state 0 (ECMA_STRING_MAGIC ECMA_MAGIC_STRING_KEYS) =
       Inr (None, example_keys_deleted_state)"
  using second_request_not_found [OF example_keys_try example_keys_deleted_state_facts(2,3,4)]
    example_keys_try example_keys_deleted_state_facts
  by simp

text \<open>
  Claim C3 as stated fails: on the Object object just initialised, the requests for the 15
  names in the order of the table do not end with an empty mask; the first of them, for
  \<^verbatim>\<open>"prototype"\<close>, ends in \<^verbatim>\<open>JERRY_UNIMPLEMENTED\<close>.
\<close>

theorem mask_accounting_counterexample:
  "ecma_builtin_init_object_object example_enum_values ecma_empty_state =
     Inr example_fresh_state
   \<and> ecma_builtin_object_try_to_instantiate_property example_enum_values example_fresh_state 0
       (ECMA_STRING_MAGIC ECMA_MAGIC_STRING_PROTOTYPE) = Inl JERRY_UNIMPLEMENTED
   \<and> instantiate_all example_enum_values example_fresh_state 0
       ecma_builtin_object_property_names = Inl JERRY_UNIMPLEMENTED"
proof -
  have p: "ecma_builtin_object_try_to_instantiate_property example_enum_values
             example_fresh_state 0 (ECMA_STRING_MAGIC ECMA_MAGIC_STRING_PROTOTYPE) =
           Inl JERRY_UNIMPLEMENTED"
    by (rule inv_prototype [OF example_sorted example_fresh_state_inv])
       (simp_all add: bit_initial_mask)
  have "instantiate_all example_enum_values example_fresh_state 0
          (ECMA_MAGIC_STRING_PROTOTYPE # ids) = Inl JERRY_UNIMPLEMENTED" for ids
    by (simp add: p)
  then have "instantiate_all example_enum_values example_fresh_state 0
       ecma_builtin_object_property_names = Inl JERRY_UNIMPLEMENTED"
    unfolding ecma_builtin_object_property_names_def by blast
  with p example_fresh_state_init show ?thesis by simp
qed

theorem mask_accounting_witness:
  "\<exists>s'. instantiate_all example_enum_values example_fresh_state 0
      [ ECMA_MAGIC_STRING_KEYS, ECMA_MAGIC_STRING_IS_EXTENSIBLE, ECMA_MAGIC_STRING_IS_FROZEN_UL,
        ECMA_MAGIC_STRING_IS_SEALED_UL, ECMA_MAGIC_STRING_PREVENT_EXTENSIONS_UL,
        ECMA_MAGIC_STRING_FREEZE, ECMA_MAGIC_STRING_SEAL,
        ECMA_MAGIC_STRING_DEFINE_PROPERTIES_UL, ECMA_MAGIC_STRING_DEFINE_PROPERTY_UL,
        ECMA_MAGIC_STRING_CREATE, ECMA_MAGIC_STRING_GET_OWN_PROPERTY_NAMES_UL,
        ECMA_MAGIC_STRING_GET_OWN_PROPERTY_DESCRIPTOR_UL,
        ECMA_MAGIC_STRING_GET_PROTOTYPE_OF_UL, ECMA_MAGIC_STRING_LENGTH ] = Inr (Some s')
     \<and> ecma_get_internal_property s' 0 MASK = Inr 1"
proof -
  let ?ids = "[ ECMA_MAGIC_STRING_KEYS, ECMA_MAGIC_STRING_IS_EXTENSIBLE,
        ECMA_MAGIC_STRING_IS_FROZEN_UL,
        ECMA_MAGIC_STRING_IS_SEALED_UL, ECMA_MAGIC_STRING_PREVENT_EXTENSIONS_UL,
        ECMA_MAGIC_STRING_FREEZE, ECMA_MAGIC_STRING_SEAL,
        ECMA_MAGIC_STRING_DEFINE_PROPERTIES_UL, ECMA_MAGIC_STRING_DEFINE_PROPERTY_UL,
        ECMA_MAGIC_STRING_CREATE, ECMA_MAGIC_STRING_GET_OWN_PROPERTY_NAMES_UL,
        ECMA_MAGIC_STRING_GET_OWN_PROPERTY_DESCRIPTOR_UL,
        ECMA_MAGIC_STRING_GET_PROTOTYPE_OF_UL, ECMA_MAGIC_STRING_LENGTH ]"
  have n: "ecma_object_object_p ecma_empty_state = None" by (simp add: ecma_empty_state_def)
  have d: "distinct ?ids" by simp
  have e: "set ?ids = set ecma_builtin_object_property_names - {ECMA_MAGIC_STRING_PROTOTYPE}"
    by (auto simp: ecma_builtin_object_property_names_def)
  from mask_accounting [OF example_sorted n d e]
  obtain s obj_p s' where
    "ecma_builtin_init_object_object example_enum_values ecma_empty_state = Inr s"
    "ecma_object_object_p s = Some obj_p"
    "instantiate_all example_enum_values s obj_p ?ids = Inr (Some s')"
    "ecma_get_internal_property s' obj_p MASK = Inr 1"
    by blast
  moreover from this have "s = example_fresh_state" "obj_p = 0"
    by (simp_all add: example_fresh_state_init example_fresh_state_facts)
  ultimately show ?thesis by blast
qed

theorem instantiate_routine_property_witness:
  "ecma_magic_strings_sorted example_enum_values
   \<and> ecma_object_object_p ecma_empty_state = None
   \<and> ECMA_MAGIC_STRING_KEYS \<in> set ecma_builtin_object_routine_ids
   \<and> (\<exists>fp s' i.
        ecma_builtin_object_try_to_instantiate_property example_enum_values
          example_fresh_state 0 (ECMA_STRING_MAGIC ECMA_MAGIC_STRING_KEYS) =
          Inr (Some (ECMA_PROPERTY_NAMEDDATA (ECMA_STRING_MAGIC ECMA_MAGIC_STRING_KEYS)
                       (ECMA_TYPE_OBJECT fp) ECMA_PROPERTY_WRITABLE
                       ECMA_PROPERTY_NOT_ENUMERABLE ECMA_PROPERTY_CONFIGURABLE), s')
      \<and> ecma_get_internal_property s' 0 MASK =
          Inr (ecma_builtin_object_initial_mask AND NOT (push_bit i 1))
      \<and> mask_bits_set (ecma_builtin_object_initial_mask AND NOT (push_bit i 1)) = 14)"
proof -
  have n: "ecma_object_object_p ecma_empty_state = None" by (simp add: ecma_empty_state_def)
  have R: "ECMA_MAGIC_STRING_KEYS \<in> set ecma_builtin_object_routine_ids"
    by (simp add: ecma_builtin_object_routine_ids_def)
  from instantiate_routine_property [OF example_sorted n R]
  obtain s obj_p i s' fp where
    "ecma_builtin_init_object_object example_enum_values ecma_empty_state = Inr s"
    "ecma_object_object_p s = Some obj_p"
    "ecma_builtin_object_try_to_instantiate_property example_enum_values s obj_p
       (ECMA_STRING_MAGIC ECMA_MAGIC_STRING_KEYS) =
       Inr (Some (ECMA_PROPERTY_NAMEDDATA (ECMA_STRING_MAGIC ECMA_MAGIC_STRING_KEYS)
                    (ECMA_TYPE_OBJECT fp) ECMA_PROPERTY_WRITABLE
                    ECMA_PROPERTY_NOT_ENUMERABLE ECMA_PROPERTY_CONFIGURABLE), s')"
    "ecma_get_internal_property s' obj_p MASK =
       Inr (ecma_builtin_object_initial_mask AND NOT (push_bit i 1))"
    "mask_bits_set (ecma_builtin_object_initial_mask AND NOT (push_bit i 1)) = 14"
    by blast
  moreover from this have "s = example_fresh_state" "obj_p = 0"
    by (simp_all add: example_fresh_state_init example_fresh_state_facts)
  ultimately show ?thesis using example_sorted n R by blast
qed

theorem instantiate_length_property_witness:
  "ecma_magic_strings_sorted example_enum_values
   \<and> ecma_object_object_p ecma_empty_state = None
   \<and> (\<exists>s'.
        ecma_builtin_object_try_to_instantiate_property example_enum_values
          example_fresh_state 0 (ECMA_STRING_MAGIC ECMA_MAGIC_STRING_LENGTH) =
          Inr (Some (ECMA_PROPERTY_NAMEDDATA (ECMA_STRING_MAGIC ECMA_MAGIC_STRING_LENGTH)
                       (ECMA_TYPE_NUMBER 1) ECMA_PROPERTY_NOT_WRITABLE
                       ECMA_PROPERTY_NOT_ENUMERABLE ECMA_PROPERTY_NOT_CONFIGURABLE), s')
      \<and> ecma_get_internal_property s' 0 MASK =
          Inr (ecma_builtin_object_initial_mask AND NOT (push_bit 1 1)))"
proof -
  have n: "ecma_object_object_p ecma_empty_state = None" by (simp add: ecma_empty_state_def)
  from instantiate_length_property [OF example_sorted n]
  obtain s obj_p s' where
    "ecma_builtin_init_object_object example_enum_values ecma_empty_state = Inr s"
    "ecma_object_object_p s = Some obj_p"
    "ecma_builtin_object_try_to_instantiate_property example_enum_values s obj_p
        (ECMA_STRING_MAGIC ECMA_MAGIC_STRING_LENGTH) =
        Inr (Some (ECMA_PROPERTY_NAMEDDATA (ECMA_STRING_MAGIC ECMA_MAGIC_STRING_LENGTH)
                     (ECMA_TYPE_NUMBER 1) ECMA_PROPERTY_NOT_WRITABLE
                     ECMA_PROPERTY_NOT_ENUMERABLE ECMA_PROPERTY_NOT_CONFIGURABLE), s')"
    "ecma_get_internal_property s' obj_p MASK =
        Inr (ecma_builtin_object_initial_mask AND NOT (push_bit 1 1))"
    by blast
  moreover from this have "s = example_fresh_state" "obj_p = 0"
    by (simp_all add: example_fresh_state_init example_fresh_state_facts)
  ultimately show ?thesis using example_sorted n by blast
qed

end
